theory Spec2Isabelle
  imports Main "HOL-Library.Word"
begin

section \<open>Bytes, pointers and fixed-offset reads\<close>

text \<open>
  \<open>SteamClient::HandleMessage\<close> (handlers.cpp) receives a pointer \<open>data\<close> and a
  declared \<open>length\<close>. A pointer is modelled by the list of bytes that are readable
  from it up to the end of its allocation; the declared length is a separate number,
  as in the source, and nothing in the model forces it to agree with the allocation.
  Integers are read the way \<open>reinterpret_cast\<close> reads them on a little-endian host.
\<close>

type_synonym byte = "8 word"
type_synonym u32 = "32 word"
type_synonym u64 = "64 word"

fun le_nat :: "byte list \<Rightarrow> nat" where
  "le_nat [] = 0"
| "le_nat (b # bs) = unat b + 256 * le_nat bs"

fun le_bytes :: "nat \<Rightarrow> nat \<Rightarrow> byte list" where
  "le_bytes 0 n = []"
| "le_bytes (Suc k) n = of_nat (n mod 256) # le_bytes k (n div 256)"

definition le32 :: "u32 \<Rightarrow> byte list" where
  "le32 w = le_bytes 4 (unat w)"

text \<open>\<open>*reinterpret_cast<const std::uint32_t*>(p + off)\<close>, in bounds.\<close>

definition u32_at :: "nat \<Rightarrow> byte list \<Rightarrow> u32" where
  "u32_at off p = of_nat (le_nat (take 4 (drop off p)))"

definition u64_at :: "nat \<Rightarrow> byte list \<Rightarrow> u64" where
  "u64_at off p = of_nat (le_nat (take 8 (drop off p)))"

text \<open>The bytes a callee sees behind a \<open>const char*\<close>: up to the first null.\<close>

definition c_str :: "byte list \<Rightarrow> byte list" where
  "c_str p = takeWhile (\<lambda>b. b \<noteq> 0) p"

section \<open>The client, its callbacks and its observable effects\<close>

datatype EMsg =
    ChannelEncryptRequest
  | ChannelEncryptResponse
  | ChannelEncryptResult
  | Multi
  | ClientLogOnResponse
  | ClientHeartBeat
  | ClientUpdateMachineAuth
  | ClientUpdateMachineAuthResponse
  | ClientPersonaState
  | ClientChatMsg
  | ClientChatEnter
  | ClientChatMemberInfo
  | OtherEMsg nat

text \<open>
  The closure handed to \<open>setInterval\<close> in the logon case; \<open>run_timer\<close> below is its
  body.
\<close>

datatype timer_action = SendHeartBeat

text \<open>
  Calls that leave \<open>HandleMessage\<close>, in the order they are made. \<open>WriteMessage\<close>
  records the message kind, the boolean second argument, the bytes its fill callback
  writes, and the job id argument (\<open>None\<close> where the call leaves it to the default).
  A callback is recorded with the arguments it is invoked with; a \<open>const char*\<close>
  argument is recorded as the string it points to, a pointer to records as the bytes
  readable from it. \<open>SubMessage\<close> is not recorded by \<open>HandleMessage\<close>: it is there
  for a \<open>ReadMessage\<close> that logs the message it is given.
\<close>

datatype event =
    WriteMessage EMsg bool "byte list" "u64 option"
  | SetInterval timer_action u32
  | OnHandshake
  | OnLogOn u32 u64
  | OnSentry "byte list"
  | OnUserInfo u64 u32 "byte list"
  | OnChatMsg u64 u64 "byte list"
  | OnChatEnter u64 u32 "byte list" u32 "byte list"
  | OnChatStateChange u64 u64 u64 u32 "byte list"
  | SubMessage "byte list"

text \<open>
  The fields of \<open>SteamClient\<close> that \<open>HandleMessage\<close> touches. A callback slot
  (\<open>std::function\<close>) is modelled by whether it is set.
\<close>

record client =
  encrypted :: bool
  sessionKey :: "byte list"
  steamID :: u64
  onHandshake :: bool
  onLogOn :: bool
  onSentry :: bool
  onUserInfo :: bool
  onChatMsg :: bool
  onChatEnter :: bool
  onChatStateChange :: bool
  trace :: "event list"

definition emit :: "event \<Rightarrow> client \<Rightarrow> client" where
  "emit e c = c\<lparr>trace := trace c @ [e]\<rparr>"

text \<open>
  How a call can end other than by returning. \<open>AssertionFailed\<close>: an \<open>assert\<close> of
  the source fails in a build that keeps assertions, and the process aborts.
  \<open>UndefinedBehaviour\<close>: the source does what C++ leaves undefined, with no check
  of its own in the way: it reads bytes that are not readable from the pointer, or
  takes an element of an empty repeated field. \<open>LengthError\<close>: the \<open>std::string\<close>
  constructor throws \<open>std::length_error\<close>, which nothing in the source catches.
  Each carries the client as it was at that point. \<open>None\<close> stands for a call that
  does not return.
\<close>

datatype fault = AssertionFailed | UndefinedBehaviour | LengthError

type_synonym outcome = "(fault \<times> client + client) option"

definition returns :: "client \<Rightarrow> outcome" where
  "returns c = Some (Inr c)"

definition faults :: "fault \<Rightarrow> client \<Rightarrow> outcome" where
  "faults f c = Some (Inl (f, c))"

section \<open>External collaborators\<close>

text \<open>
  The struct layouts and enum values of \<open>steam_language_internal.h\<close>, which is not
  part of the sources at hand: sizes and field offsets are parameters.
  \<open>init_MsgChannelEncryptResponse\<close> is the bytes of a default-constructed
  \<open>MsgChannelEncryptResponse\<close>.
\<close>

record layout =
  init_MsgChannelEncryptResponse :: "byte list"
  sizeof_MsgChannelEncryptResult :: nat
  off_result :: nat
  sizeof_MsgClientChatMsg :: nat
  off_steamIdChatRoom :: nat
  off_steamIdChatter :: nat
  sizeof_MsgClientChatEnter :: nat
  off_steamIdChat_enter :: nat
  off_enterResponse :: nat
  sizeof_MsgClientChatMemberInfo :: nat
  off_steamIdChat_info :: nat
  off_type :: nat
  EResult_OK :: u32
  EChatInfoType_StateChange :: u32

text \<open>
  What libarchive reports for one compressed payload, call by call, in the order
  \<open>HandleMessage\<close> makes the calls. \<open>read_data n\<close> is the return value of
  \<open>archive_read_data\<close> for a buffer of \<open>n\<close> bytes together with the bytes it stored.
\<close>

record archive =
  support_filter_all :: int
  support_format_zip :: int
  open_memory :: int
  next_header :: int
  entry_pathname :: string
  entry_size :: int
  read_data :: "nat \<Rightarrow> int \<times> byte list"
  next_header2 :: int
  read_free :: int

definition ARCHIVE_OK :: int where
  "ARCHIVE_OK = 0"

definition ARCHIVE_EOF :: int where
  "ARCHIVE_EOF = 1"

record friend =
  friendid :: u64
  steamid_source :: u32
  player_name :: "byte list"

text \<open>
  The build configuration (\<open>NDEBUG\<close> removes every \<open>assert\<close>), the generated
  protobuf classes, OpenSSL, zlib, libarchive, and \<open>SteamClient::ReadMessage\<close>, which
  leads back into \<open>HandleMessage\<close> and is defined outside handlers.cpp. A parser
  maps the bytes given to \<open>ParseFromArray\<close> to the fields the handler reads afterwards
  (the source ignores the parser's return value).
\<close>

record env =
  NDEBUG :: bool
  lay :: layout
  RAND_bytes :: "byte list"
  RSA_public_encrypt :: "byte list \<Rightarrow> byte list"
  crc32 :: "byte list \<Rightarrow> u32"
  SHA1 :: "byte list \<Rightarrow> byte list"
  archive_read :: "byte list \<Rightarrow> archive"
  parse_CMsgMulti :: "byte list \<Rightarrow> u32 \<times> byte list"
  parse_CMsgClientLogonResponse :: "byte list \<Rightarrow> u32 \<times> u32"
  parse_CMsgClientUpdateMachineAuth :: "byte list \<Rightarrow> byte list"
  parse_CMsgClientPersonaState :: "byte list \<Rightarrow> friend list"
  serialize_CMsgClientUpdateMachineAuthResponse :: "byte list \<Rightarrow> byte list"
  serialize_CMsgClientHeartBeat :: "byte list"
  ReadMessage :: "byte list \<Rightarrow> nat \<Rightarrow> client \<Rightarrow> outcome"

section \<open>The handlers\<close>

subsection \<open>case EMsg::ChannelEncryptRequest\<close>

text \<open>
  The request itself is never read. \<open>RAND_bytes env\<close> is the session key drawn,
  \<open>RSA_public_encrypt env key\<close> the \<open>rsa_size\<close> bytes found behind
  \<open>crypted_sess_key\<close> after the call, \<open>crc32 env\<close> the checksum of those bytes.
\<close>

definition handle_ChannelEncryptRequest :: "env \<Rightarrow> client \<Rightarrow> outcome" where
  "handle_ChannelEncryptRequest env st =
     (let key = RAND_bytes env;
          crypted_sess_key = RSA_public_encrypt env key;
          crc = crc32 env crypted_sess_key;
          buffer = init_MsgChannelEncryptResponse (lay env) @ crypted_sess_key
                     @ le32 crc @ le32 0
      in returns (emit (WriteMessage ChannelEncryptResponse False buffer None)
                    (st\<lparr>sessionKey := key\<rparr>)))"

subsection \<open>case EMsg::ChannelEncryptResult\<close>

text \<open>
  The struct is overlaid on the bytes at \<open>data\<close> whatever \<open>length\<close> says; the
  overlay is readable when the allocation holds a whole struct. The only read of it
  is inside the \<open>assert\<close>, so a build with \<open>NDEBUG\<close> reads nothing of the message.
\<close>

definition handle_ChannelEncryptResult :: "env \<Rightarrow> byte list \<Rightarrow> client \<Rightarrow> outcome" where
  "handle_ChannelEncryptResult env data st =
     (if \<not> NDEBUG env \<and> length data < sizeof_MsgChannelEncryptResult (lay env)
      then faults UndefinedBehaviour st
      else if \<not> NDEBUG env \<and> u32_at (off_result (lay env)) data \<noteq> EResult_OK (lay env)
      then faults AssertionFailed st
      else let st1 = st\<lparr>encrypted := True\<rparr>
           in returns (if onHandshake st1 then emit OnHandshake st1 else st1))"

subsection \<open>case EMsg::Multi\<close>

text \<open>
  The block under \<open>if (size_unzipped > 0)\<close>: every \<open>assert\<close> in source order, each
  one checked only in a build without \<open>NDEBUG\<close>. The result is the content of
  \<open>buffer\<close>: the bytes \<open>archive_read_data\<close> stored, within the \<open>size_unzipped\<close>
  bytes allocated.
\<close>

definition unzip :: "env \<Rightarrow> u32 \<Rightarrow> byte list \<Rightarrow> client \<Rightarrow> fault \<times> client + byte list" where
  "unzip env size_unzipped payload st =
     (let a = archive_read env payload;
          n = unat size_unzipped;
          asserts = \<not> NDEBUG env
      in if asserts \<and> support_filter_all a \<noteq> ARCHIVE_OK then Inl (AssertionFailed, st)
         else if asserts \<and> support_format_zip a \<noteq> ARCHIVE_OK then Inl (AssertionFailed, st)
         else if asserts \<and> open_memory a \<noteq> ARCHIVE_OK then Inl (AssertionFailed, st)
         else if asserts \<and> next_header a \<noteq> ARCHIVE_OK then Inl (AssertionFailed, st)
         else if asserts \<and> entry_pathname a \<noteq> ''z'' then Inl (AssertionFailed, st)
         else if asserts \<and> entry_size a \<noteq> int n then Inl (AssertionFailed, st)
         else if asserts \<and> fst (read_data a n) \<noteq> int n then Inl (AssertionFailed, st)
         else if asserts \<and> next_header2 a \<noteq> ARCHIVE_EOF then Inl (AssertionFailed, st)
         else if asserts \<and> read_free a \<noteq> ARCHIVE_OK then Inl (AssertionFailed, st)
         else Inr (take n (snd (read_data a n))))"

text \<open>
  The loop \<open>for (unsigned offset = 0; offset < payload_size;)\<close>. \<open>offset\<close> is a
  32-bit unsigned and \<open>offset += 4 + subSize\<close> wraps; the comparison is made at the
  width of \<open>payload_size\<close>. \<open>ReadMessage\<close> receives the pointer behind the length
  field and the declared \<open>subSize\<close>, whatever is left of the buffer. The loop has no
  bound of its own, so it is a partial function.
\<close>

partial_function (option) walk ::
  "(byte list \<Rightarrow> nat \<Rightarrow> client \<Rightarrow> outcome) \<Rightarrow> byte list \<Rightarrow> nat \<Rightarrow> u32 \<Rightarrow> client
     \<Rightarrow> (fault \<times> client + client) option" where
  "walk rm buf payload_size offset st =
     (if unat offset < payload_size
      then if length buf < unat offset + 4
           then Some (Inl (UndefinedBehaviour, st))
           else (case rm (drop (unat offset + 4) buf) (unat (u32_at (unat offset) buf)) st of
                   None \<Rightarrow> None
                 | Some (Inl f) \<Rightarrow> Some (Inl f)
                 | Some (Inr st') \<Rightarrow>
                     walk rm buf payload_size (offset + (4 + u32_at (unat offset) buf)) st')
      else Some (Inr st))"

text \<open>
  \<open>ParseFromArray(data, length)\<close> reads \<open>length\<close> bytes at \<open>data\<close>. Without
  compression the records are walked inside \<open>payload\<close>, a \<open>std::string\<close>, whose
  \<open>data()\<close> is followed by a null terminator.
\<close>

definition handle_Multi :: "env \<Rightarrow> byte list \<Rightarrow> nat \<Rightarrow> client \<Rightarrow> outcome" where
  "handle_Multi env data len st =
     (if length data < len then faults UndefinedBehaviour st
      else case parse_CMsgMulti env (take len data) of (size_unzipped, payload) \<Rightarrow>
        if 0 < size_unzipped
        then (case unzip env size_unzipped payload st of
                Inl f \<Rightarrow> Some (Inl f)
              | Inr buffer \<Rightarrow> walk (ReadMessage env) buffer (unat size_unzipped) 0 st)
        else walk (ReadMessage env) (payload @ [0]) (length payload) 0 st)"

subsection \<open>case EMsg::ClientLogOnResponse\<close>

definition run_timer :: "env \<Rightarrow> timer_action \<Rightarrow> client \<Rightarrow> client" where
  "run_timer env a st =
     (case a of SendHeartBeat \<Rightarrow>
        emit (WriteMessage ClientHeartBeat True (serialize_CMsgClientHeartBeat env) None) st)"

definition handle_ClientLogOnResponse :: "env \<Rightarrow> byte list \<Rightarrow> nat \<Rightarrow> client \<Rightarrow> outcome" where
  "handle_ClientLogOnResponse env data len st =
     (if length data < len then faults UndefinedBehaviour st
      else case parse_CMsgClientLogonResponse env (take len data) of (eresult, interval) \<Rightarrow>
        let st1 = (if onLogOn st then emit (OnLogOn eresult (steamID st)) st else st)
        in returns (if eresult = EResult_OK (lay env)
                    then emit (SetInterval SendHeartBeat interval) st1 else st1))"

subsection \<open>case EMsg::ClientUpdateMachineAuth\<close>

text \<open>
  \<open>SHA1 env bytes\<close> is the digest found behind the pointer OpenSSL returns;
  \<open>set_sha_file(sha, 20)\<close> copies 20 bytes of it into the response.
\<close>

definition handle_ClientUpdateMachineAuth ::
  "env \<Rightarrow> byte list \<Rightarrow> nat \<Rightarrow> u64 \<Rightarrow> client \<Rightarrow> outcome" where
  "handle_ClientUpdateMachineAuth env data len job_id st =
     (if \<not> onSentry st then returns st
      else if length data < len then faults UndefinedBehaviour st
      else let bytes = parse_CMsgClientUpdateMachineAuth env (take len data);
               sha = SHA1 env bytes;
               response = serialize_CMsgClientUpdateMachineAuthResponse env (take 20 sha);
               st1 = emit (WriteMessage ClientUpdateMachineAuthResponse True response
                             (Some job_id)) st
           in returns (emit (OnSentry sha) st1))"

subsection \<open>case EMsg::ClientPersonaState\<close>

text \<open>\<open>state.friends(0)\<close> on an empty repeated field reads an element that is not there.\<close>

definition handle_ClientPersonaState :: "env \<Rightarrow> byte list \<Rightarrow> nat \<Rightarrow> client \<Rightarrow> outcome" where
  "handle_ClientPersonaState env data len st =
     (if \<not> onUserInfo st then returns st
      else if length data < len then faults UndefinedBehaviour st
      else let friends = parse_CMsgClientPersonaState env (take len data)
           in if \<not> NDEBUG env \<and> length friends \<noteq> 1 then faults AssertionFailed st
              else case friends of
                     [] \<Rightarrow> faults UndefinedBehaviour st
                   | user # _ \<Rightarrow>
                       returns (emit (OnUserInfo (friendid user) (steamid_source user)
                                        (c_str (player_name user @ [0]))) st))"

subsection \<open>case EMsg::ClientChatMsg\<close>

text \<open>
  A field read through a struct overlaid on the payload touches the bytes of that
  field only. It is in bounds when those bytes are readable; the fields of a struct
  lie inside it, so that is the case whenever the whole struct is readable.
\<close>

definition field_readable :: "nat \<Rightarrow> nat \<Rightarrow> nat \<Rightarrow> byte list \<Rightarrow> bool" where
  "field_readable sizeof_struct off width p \<longleftrightarrow>
     off + width \<le> length p \<or> sizeof_struct \<le> length p"

text \<open>
  \<open>begin\<close> is \<open>data + sizeof(MsgClientChatMsg)\<close>, \<open>end\<close> is \<open>data + length\<close>.
  \<^item> When \<open>end\<close> lies before \<open>begin\<close>, \<open>std::find\<close> has nothing to walk and
    returns \<open>end\<close>; \<open>std::string(begin, end - begin)\<close> is then asked for a negative
    number of characters, a count beyond any string, and throws.
  \<^item> Otherwise \<open>std::find\<close> reads the bytes from \<open>begin\<close> on and stops at the first
    null or at \<open>end\<close>. \<open>begin_end\<close> is the part of that range that is readable; the
    walk leaves the readable bytes when it holds no null and is shorter than the
    range.
  \<^item> Without a null in the range the text is copied into a \<open>std::string\<close> (that adds
    a terminator) and its \<open>c_str()\<close> is passed; with one, \<open>begin\<close> itself is passed.
  \<^item> Of the header only the two identifiers are read.
\<close>

definition handle_ClientChatMsg :: "env \<Rightarrow> byte list \<Rightarrow> nat \<Rightarrow> client \<Rightarrow> outcome" where
  "handle_ClientChatMsg env data len st =
     (if \<not> onChatMsg st then returns st
      else let sz = sizeof_MsgClientChatMsg (lay env);
               begin_end = take (len - sz) (drop sz data)
           in if len < sz then faults LengthError st
              else if List.find (\<lambda>b. b = 0) begin_end = None \<and> length begin_end < len - sz
              then faults UndefinedBehaviour st
              else if \<not> (field_readable sz (off_steamIdChatRoom (lay env)) 8 data
                         \<and> field_readable sz (off_steamIdChatter (lay env)) 8 data)
              then faults UndefinedBehaviour st
              else let text = (if List.find (\<lambda>b. b = 0) begin_end = None
                               then c_str (begin_end @ [0])
                               else c_str (drop sz data))
                   in returns (emit (OnChatMsg (u64_at (off_steamIdChatRoom (lay env)) data)
                                       (u64_at (off_steamIdChatter (lay env)) data) text) st))"

subsection \<open>case EMsg::ClientChatEnter\<close>

text \<open>
  \<open>while (*members++);\<close> runs to the first null behind \<open>chat_name\<close>, wherever it
  is; \<open>length\<close> is not consulted.
\<close>

definition handle_ClientChatEnter :: "env \<Rightarrow> byte list \<Rightarrow> client \<Rightarrow> outcome" where
  "handle_ClientChatEnter env data st =
     (if \<not> onChatEnter st then returns st
      else let sz = sizeof_MsgClientChatEnter (lay env)
           in if length data < sz + 4 then faults UndefinedBehaviour st
              else let member_count = u32_at sz data;
                       chat_name = drop (sz + 4) data
                   in if List.find (\<lambda>b. b = 0) chat_name = None
                      then faults UndefinedBehaviour st
                      else let members = drop (length (c_str chat_name) + 1) chat_name
                           in returns (emit (OnChatEnter
                                 (u64_at (off_steamIdChat_enter (lay env)) data)
                                 (u32_at (off_enterResponse (lay env)) data)
                                 (c_str chat_name) member_count members) st))"

subsection \<open>case EMsg::ClientChatMemberInfo\<close>

definition handle_ClientChatMemberInfo :: "env \<Rightarrow> byte list \<Rightarrow> client \<Rightarrow> outcome" where
  "handle_ClientChatMemberInfo env data st =
     (if \<not> onChatStateChange st then returns st
      else let sz = sizeof_MsgClientChatMemberInfo (lay env)
           in if length data < sz then faults UndefinedBehaviour st
              else if u32_at (off_type (lay env)) data \<noteq> EChatInfoType_StateChange (lay env)
              then returns st
              else if length data < sz + 8 + 4 + 8 then faults UndefinedBehaviour st
              else let acted_on = u64_at sz data;
                       state_change = u32_at (sz + 8) data;
                       acted_by = u64_at (sz + 8 + 4) data;
                       member = drop (sz + 8 + 4 + 8) data
                   in returns (emit (OnChatStateChange
                         (u64_at (off_steamIdChat_info (lay env)) data)
                         acted_by acted_on state_change member) st))"

subsection \<open>The switch\<close>

fun HandleMessage :: "env \<Rightarrow> EMsg \<Rightarrow> byte list \<Rightarrow> nat \<Rightarrow> u64 \<Rightarrow> client \<Rightarrow> outcome" where
  "HandleMessage env ChannelEncryptRequest data len job_id st =
     handle_ChannelEncryptRequest env st"
| "HandleMessage env ChannelEncryptResult data len job_id st =
     handle_ChannelEncryptResult env data st"
| "HandleMessage env Multi data len job_id st = handle_Multi env data len st"
| "HandleMessage env ClientLogOnResponse data len job_id st =
     handle_ClientLogOnResponse env data len st"
| "HandleMessage env ClientUpdateMachineAuth data len job_id st =
     handle_ClientUpdateMachineAuth env data len job_id st"
| "HandleMessage env ClientPersonaState data len job_id st =
     handle_ClientPersonaState env data len st"
| "HandleMessage env ClientChatMsg data len job_id st = handle_ClientChatMsg env data len st"
| "HandleMessage env ClientChatEnter data len job_id st = handle_ClientChatEnter env data st"
| "HandleMessage env ClientChatMemberInfo data len job_id st =
     handle_ClientChatMemberInfo env data st"
| "HandleMessage env _ data len job_id st = returns st"

section \<open>A concrete instance of the collaborators\<close>

text \<open>
  To run the handlers on concrete messages the parameters need values. The layout is
  a packed one, with 8-byte identifiers and 4-byte enums; the parsers, the archive
  reader and the digest are small stand-ins with the right types, and \<open>ReadMessage\<close>
  only logs the bytes it is asked to read as a \<open>SubMessage\<close> event.
\<close>

definition fixture_layout :: layout where
  "fixture_layout =
     \<lparr> init_MsgChannelEncryptResponse = [1, 0, 0, 0, 128, 0, 0, 0],
       sizeof_MsgChannelEncryptResult = 4, off_result = 0,
       sizeof_MsgClientChatMsg = 20, off_steamIdChatRoom = 8, off_steamIdChatter = 0,
       sizeof_MsgClientChatEnter = 41, off_steamIdChat_enter = 0, off_enterResponse = 37,
       sizeof_MsgClientChatMemberInfo = 12, off_steamIdChat_info = 0, off_type = 8,
       EResult_OK = 1, EChatInfoType_StateChange = 1 \<rparr>"

text \<open>
  The stand-in archive reader takes the first byte of the payload as the number of
  entries, the second as the (one-letter) name of the first entry and the rest as its
  content.
\<close>

definition fixture_archive :: "byte list \<Rightarrow> archive" where
  "fixture_archive p =
     (case p of
        count # name # content \<Rightarrow>
          \<lparr> support_filter_all = 0, support_format_zip = 0, open_memory = 0,
            next_header = (if count = 0 then 1 else 0),
            entry_pathname = (if name = 122 then ''z'' else ''y''),
            entry_size = int (length content),
            read_data = (\<lambda>n. (int (min n (length content)), take n content)),
            next_header2 = (if count = 1 then 1 else 0),
            read_free = 0 \<rparr>
      | _ \<Rightarrow>
          \<lparr> support_filter_all = 0, support_format_zip = 0, open_memory = -30,
            next_header = -30, entry_pathname = [], entry_size = 0,
            read_data = (\<lambda>n. (-30, [])), next_header2 = -30, read_free = 0 \<rparr>)"

definition sha1_abc :: "byte list" where
  "sha1_abc = [0xa9, 0x99, 0x3e, 0x36, 0x47, 0x06, 0x81, 0x6a, 0xba, 0x3e,
               0x25, 0x71, 0x78, 0x50, 0xc2, 0x6c, 0x9c, 0xd0, 0xd8, 0x9d]"

definition fixture_env :: "bool \<Rightarrow> env" where
  "fixture_env ndebug =
     \<lparr> NDEBUG = ndebug,
       lay = fixture_layout,
       RAND_bytes = replicate 32 7,
       RSA_public_encrypt = (\<lambda>key. replicate 128 9),
       crc32 = (\<lambda>bs. 0),
       SHA1 = (\<lambda>bs. if bs = [97, 98, 99] then sha1_abc else replicate 20 0),
       archive_read = fixture_archive,
       parse_CMsgMulti = (\<lambda>bs. (u32_at 0 bs, drop 4 bs)),
       parse_CMsgClientLogonResponse = (\<lambda>bs. (u32_at 0 bs, u32_at 4 bs)),
       parse_CMsgClientUpdateMachineAuth = (\<lambda>bs. bs),
       parse_CMsgClientPersonaState =
         map (\<lambda>b. \<lparr> friendid = ucast b, steamid_source = 1, player_name = [b] \<rparr>),
       serialize_CMsgClientUpdateMachineAuthResponse = (\<lambda>sha. sha),
       serialize_CMsgClientHeartBeat = [],
       ReadMessage = (\<lambda>p n st. returns (emit (SubMessage (take n p)) st)) \<rparr>"

text \<open>A client with every callback set, and one with none.\<close>

definition listening :: client where
  "listening =
     \<lparr> encrypted = False, sessionKey = [], steamID = 42,
       onHandshake = True, onLogOn = True, onSentry = True, onUserInfo = True,
       onChatMsg = True, onChatEnter = True, onChatStateChange = True, trace = [] \<rparr>"

definition deaf :: client where
  "deaf =
     \<lparr> encrypted = False, sessionKey = [], steamID = 42,
       onHandshake = False, onLogOn = False, onSentry = False, onUserInfo = False,
       onChatMsg = False, onChatEnter = False, onChatStateChange = False, trace = [] \<rparr>"

text \<open>
  Two chat messages under a 20-byte header (chatter 1, room 2): the text
  \<open>hello\<close> followed by a null and \<open>trailing\<close>, and the text \<open>hello\<close> with no
  null, filling the rest of the message.
\<close>

definition chat_header :: "byte list" where
  "chat_header = [1, 0, 0, 0, 0, 0, 0, 0, 2, 0, 0, 0, 0, 0, 0, 0, 1, 0, 0, 0]"

definition chat_hello_trailing :: "byte list" where
  "chat_hello_trailing =
     chat_header @ [104, 101, 108, 108, 111, 0, 116, 114, 97, 105, 108, 105, 110, 103]"

definition chat_hello :: "byte list" where
  "chat_hello = chat_header @ [104, 101, 108, 108, 111]"

text \<open>
  The 41-byte header of a chat-enter message (chat 3, enter response 1), a
  chat-enter message under it (two members, room name \<open>ab\<close>, two bytes of member
  records), and a chat-member-info message of type state change: chat 3, acted on 4,
  state change 2, acted by 5, then one byte of member record.
\<close>

definition chat_enter_header :: "byte list" where
  "chat_enter_header =
     [3, 0, 0, 0, 0, 0, 0, 0, 0, 0, 0, 0, 0, 0, 0, 0, 0, 0, 0, 0, 0, 0, 0, 0, 0, 0, 0, 0, 0, 0,
      0, 0, 0, 0, 0, 0, 0, 1, 0, 0, 0]"

definition chat_enter_msg :: "byte list" where
  "chat_enter_msg = chat_enter_header @ [2, 0, 0, 0, 97, 98, 0, 9, 9]"

definition member_info_msg :: "byte list" where
  "member_info_msg =
     [3, 0, 0, 0, 0, 0, 0, 0, 1, 0, 0, 0, 4, 0, 0, 0, 0, 0, 0, 0, 2, 0, 0, 0,
      5, 0, 0, 0, 0, 0, 0, 0, 9]"

text \<open>
  Three batches whose last record declares 5 bytes and holds 3, or is cut off inside
  its length field, behind one complete record with the body \<open>[7, 8]\<close>:
  uncompressed, uncompressed with two stray bytes, and compressed (declared size 13,
  one entry named \<open>z\<close>).
\<close>

definition batch_overrun :: "byte list" where
  "batch_overrun = [0, 0, 0, 0, 2, 0, 0, 0, 7, 8, 5, 0, 0, 0, 1, 2, 3]"

definition batch_stray :: "byte list" where
  "batch_stray = [0, 0, 0, 0, 2, 0, 0, 0, 7, 8, 9, 9]"

definition zip_overrun :: "byte list" where
  "zip_overrun = [13, 0, 0, 0, 1, 122, 2, 0, 0, 0, 7, 8, 5, 0, 0, 0, 1, 2, 3]"

section \<open>Vocabulary of the properties\<close>


text \<open>
  Whether the callback that a kind's handler asks for before anything else is set.
  The handshake, batch and logon handlers ask for none.
\<close>

definition listener :: "EMsg \<Rightarrow> client \<Rightarrow> bool" where
  "listener k st =
     (if k = ClientUpdateMachineAuth then onSentry st
      else if k = ClientPersonaState then onUserInfo st
      else if k = ClientChatMsg then onChatMsg st
      else if k = ClientChatEnter then onChatEnter st
      else if k = ClientChatMemberInfo then onChatStateChange st
      else True)"

text \<open>Running a handler after an outcome: a fault or a call that does not return ends it.\<close>

definition and_then :: "outcome \<Rightarrow> (client \<Rightarrow> outcome) \<Rightarrow> outcome" where
  "and_then r f = (case r of None \<Rightarrow> None | Some (Inl e) \<Rightarrow> Some (Inl e) | Some (Inr st) \<Rightarrow> f st)"

text \<open>
  A well-formed batch payload: each body behind its length as a little-endian
  \<open>u32\<close>. \<open>dispatch_all rm bodies rest\<close> submits the bodies to \<open>rm\<close> one by one, in
  order: each call gets the pointer to its body (behind which the later records and
  \<open>rest\<close>, the bytes after the last record, are readable) and the length of exactly
  that body.
\<close>

fun frame :: "byte list list \<Rightarrow> byte list" where
  "frame [] = []"
| "frame (b # bs) = le32 (of_nat (length b)) @ b @ frame bs"

fun dispatch_all ::
  "(byte list \<Rightarrow> nat \<Rightarrow> client \<Rightarrow> outcome) \<Rightarrow> byte list list \<Rightarrow> byte list \<Rightarrow> client \<Rightarrow> outcome"
where
  "dispatch_all rm [] rest st = returns st"
| "dispatch_all rm (b # bs) rest st =
     and_then (rm (b @ frame bs @ rest) (length b) st) (dispatch_all rm bs rest)"

text \<open>
  What the source asserts about a compressed payload of declared size \<open>n\<close>: the
  container opens, its first entry is named \<open>z\<close> and has size \<open>n\<close>, reading it
  yields \<open>n\<close> bytes, no entry follows, and the reader closes cleanly.
\<close>

definition container_ok :: "archive \<Rightarrow> nat \<Rightarrow> bool" where
  "container_ok a n \<longleftrightarrow>
     support_filter_all a = ARCHIVE_OK \<and> support_format_zip a = ARCHIVE_OK
     \<and> open_memory a = ARCHIVE_OK \<and> next_header a = ARCHIVE_OK
     \<and> entry_pathname a = ''z'' \<and> entry_size a = int n
     \<and> fst (read_data a n) = int n
     \<and> next_header2 a = ARCHIVE_EOF \<and> read_free a = ARCHIVE_OK"

text \<open>
  The bytes the walk of a batch runs over, with what is readable behind them: for an
  uncompressed batch the payload and the terminator of the string that holds it; for
  a compressed batch whose container meets every requirement, the \<open>n\<close> bytes read
  from its entry, with nothing behind them.
\<close>

definition walked :: "env \<Rightarrow> u32 \<Rightarrow> byte list \<Rightarrow> (byte list \<times> byte list) option" where
  "walked env size_unzipped payload =
     (if size_unzipped = 0 then Some (payload, [0])
      else let n = unat size_unzipped;
               a = archive_read env payload;
               content = snd (read_data a n)
           in if container_ok a n \<and> length content = n then Some (content, []) else None)"

section \<open>Reading and writing little-endian integers\<close>

lemma le_nat_le_bytes: "le_nat (le_bytes k n) = n mod 256 ^ k"
proof (induction k arbitrary: n)
  case 0
  then show ?case by simp
next
  case (Suc k)
  have "unat (of_nat (n mod 256) :: byte) = n mod 256"
    by (simp add: unat_of_nat)
  then show ?case
    using Suc.IH [of "n div 256"] by (simp add: mod_mult2_eq)
qed

lemma length_le_bytes: "length (le_bytes k n) = k"
  by (induction k arbitrary: n) simp_all

lemma length_le32: "length (le32 w) = 4"
  by (simp add: le32_def length_le_bytes)

lemma u32_at_le32: "u32_at (length pre) (pre @ le32 w @ post) = w"
proof -
  have "take 4 (le32 w @ post) = le32 w"
    by (simp add: length_le32)
  moreover have "unat w < 2 ^ 32"
    using unsigned_less [of w, where ?'a = nat] by simp
  then have "le_nat (le32 w) = unat w"
    by (simp add: le32_def le_nat_le_bytes)
  ultimately show ?thesis
    by (simp add: u32_at_def)
qed

lemma le32_bytes:
  "le32 w = [of_nat (unat w mod 256), of_nat (unat w div 256 mod 256),
             of_nat (unat w div 256 div 256 mod 256),
             of_nat (unat w div 256 div 256 div 256 mod 256)]"
proof -
  have "(4::nat) = Suc (Suc (Suc (Suc 0)))"
    by simp
  then show ?thesis
    unfolding le32_def by (simp only: le_bytes.simps)
qed

section \<open>Facts about the concrete instance\<close>

lemma fixture_ReadMessage:
  "ReadMessage (fixture_env d) = (\<lambda>p n st. returns (emit (SubMessage (take n p)) st))"
  by (simp add: fixture_env_def)

lemma fixture_parse_CMsgMulti:
  "parse_CMsgMulti (fixture_env d) bs = (u32_at 0 bs, drop 4 bs)"
  by (simp add: fixture_env_def)

lemma fixture_archive_read: "archive_read (fixture_env d) = fixture_archive"
  by (simp add: fixture_env_def)

section \<open>The handshake result\<close>

text \<open>
  What the handler does with a result code depends on the build, because the only
  check of the code is the \<open>assert\<close> of line 68. With the struct readable: a result
  code OK sets the encrypted flag and invokes the handshake callback once if it is
  set, in either build; any other code aborts a build that keeps assertions.
\<close>

lemma encrypt_result_in_both_builds:
  assumes "sizeof_MsgChannelEncryptResult (lay env) \<le> length data"
  shows "HandleMessage env ChannelEncryptResult data len job_id st =
           (if u32_at (off_result (lay env)) data = EResult_OK (lay env) \<or> NDEBUG env
            then returns (st\<lparr>encrypted := True,
                   trace := trace st @ (if onHandshake st then [OnHandshake] else [])\<rparr>)
            else faults AssertionFailed st)"
  using assms by (simp add: handle_ChannelEncryptResult_def emit_def)

text \<open>
  C1 holds that a result code other than OK leaves the encrypted flag false and the
  handshake callback uninvoked, by a check that no build leaves out. The source
  states the same requirement, as an \<open>assert\<close>, and runs past it: for the result
  code 2, which is not OK, on a client whose flag is false, a build with \<open>NDEBUG\<close>
  sets the flag and invokes the callback, and a build that keeps assertions aborts
  the process.
\<close>

theorem encrypt_result_not_ok_runs_past_assert:
  "u32_at (off_result (lay (fixture_env True))) [2, 0, 0, 0] \<noteq> EResult_OK (lay (fixture_env True))
   \<and> \<not> encrypted listening
   \<and> HandleMessage (fixture_env True) ChannelEncryptResult [2, 0, 0, 0] 4 0 listening
       = returns (listening\<lparr>encrypted := True, trace := [OnHandshake]\<rparr>)
   \<and> HandleMessage (fixture_env False) ChannelEncryptResult [2, 0, 0, 0] 4 0 listening
       = faults AssertionFailed listening"
  by (simp add: handle_ChannelEncryptResult_def fixture_env_def fixture_layout_def
        listening_def u32_at_def emit_def)

section \<open>Logon response\<close>

text \<open>
  C9. A logon-response message whose result code is OK schedules the heartbeat at
  the interval the message carries, whether or not a logon callback is set; the
  callback, when set, is invoked first, with the result and the client's own
  identifier; a result other than OK schedules nothing. Nothing else changes. The
  scheduled action sends one heartbeat message with the flag set.
\<close>

theorem logon_response_schedules_heartbeat:
  assumes "len \<le> length data"
    and "parse_CMsgClientLogonResponse env (take len data) = (eresult, interval)"
  shows "HandleMessage env ClientLogOnResponse data len job_id st =
           returns (st\<lparr>trace := trace st
              @ (if onLogOn st then [OnLogOn eresult (steamID st)] else [])
              @ (if eresult = EResult_OK (lay env)
                 then [SetInterval SendHeartBeat interval] else [])\<rparr>)
         \<and> run_timer env SendHeartBeat st =
               st\<lparr>trace := trace st @
                  [WriteMessage ClientHeartBeat True (serialize_CMsgClientHeartBeat env) None]\<rparr>"
  using assms by (simp add: handle_ClientLogOnResponse_def run_timer_def emit_def)

theorem logon_response_schedules_heartbeat_witness:
  "8 \<le> length [1, 0, 0, 0, 9, 0, 0, 0 :: byte]
   \<and> parse_CMsgClientLogonResponse (fixture_env True) (take 8 [1, 0, 0, 0, 9, 0, 0, 0]) = (1, 9)
   \<and> HandleMessage (fixture_env True) ClientLogOnResponse [1, 0, 0, 0, 9, 0, 0, 0] 8 0 deaf
       = returns (deaf\<lparr>trace := [SetInterval SendHeartBeat 9]\<rparr>)
   \<and> HandleMessage (fixture_env True) ClientLogOnResponse [1, 0, 0, 0, 9, 0, 0, 0] 8 0 listening
       = returns (listening\<lparr>trace := [OnLogOn 1 42, SetInterval SendHeartBeat 9]\<rparr>)
   \<and> parse_CMsgClientLogonResponse (fixture_env True) (take 8 [5, 0, 0, 0, 9, 0, 0, 0]) = (5, 9)
   \<and> HandleMessage (fixture_env True) ClientLogOnResponse [5, 0, 0, 0, 9, 0, 0, 0] 8 0 listening
       = returns (listening\<lparr>trace := [OnLogOn 5 42]\<rparr>)"
proof -
  have p: "parse_CMsgClientLogonResponse (fixture_env True) (take 8 [1, 0, 0, 0, 9, 0, 0, 0])
             = (1, 9)"
    by (simp add: fixture_env_def u32_at_def)
  have q: "parse_CMsgClientLogonResponse (fixture_env True) (take 8 [5, 0, 0, 0, 9, 0, 0, 0])
             = (5, 9)"
    by (simp add: fixture_env_def u32_at_def)
  have l: "8 \<le> length [1, 0, 0, 0, 9, 0, 0, 0 :: byte]"
          "8 \<le> length [5, 0, 0, 0, 9, 0, 0, 0 :: byte]"
    by simp_all
  have ok: "EResult_OK (lay (fixture_env True)) = 1"
    by (simp add: fixture_env_def fixture_layout_def)
  show ?thesis
    using logon_response_schedules_heartbeat [OF l(1) p, of 0 deaf]
          logon_response_schedules_heartbeat [OF l(1) p, of 0 listening]
          logon_response_schedules_heartbeat [OF l(2) q, of 0 listening] p q ok
    by (simp add: deaf_def listening_def)
qed

section \<open>Machine authentication\<close>

text \<open>
  C10. A machine-auth update that arrives while no sentry callback is set makes the
  handler return at once: the client is returned as it was, so nothing is sent and
  nothing is recorded.
\<close>

theorem machine_auth_without_sentry_is_dropped:
  assumes "\<not> onSentry st"
  shows "HandleMessage env ClientUpdateMachineAuth data len job_id st = returns st"
  using assms by (simp add: handle_ClientUpdateMachineAuth_def)

theorem machine_auth_without_sentry_is_dropped_witness:
  "\<not> onSentry deaf
   \<and> HandleMessage (fixture_env False) ClientUpdateMachineAuth [97, 98, 99] 3 7 deaf
       = returns deaf"
proof -
  have h: "\<not> onSentry deaf"
    by (simp add: deaf_def)
  show ?thesis
    using h machine_auth_without_sentry_is_dropped [OF h] by simp
qed

text \<open>
  C6, as the code has it. With a sentry callback set, a machine-auth update carrying
  \<open>blob\<close> under job id \<open>j\<close> makes the handler send one
  \<open>ClientUpdateMachineAuthResponse\<close> holding the 20-byte SHA-1 digest of \<open>blob\<close>,
  with the flag set and job id \<open>j\<close>, and then invoke the sentry callback with that
  digest; nothing else changes.
\<close>

theorem machine_auth_replies_with_digest:
  assumes "onSentry st"
    and "len \<le> length data"
    and "parse_CMsgClientUpdateMachineAuth env (take len data) = blob"
    and "length (SHA1 env blob) = 20"
  shows "HandleMessage env ClientUpdateMachineAuth data len j st =
           returns (st\<lparr>trace := trace st @
             [WriteMessage ClientUpdateMachineAuthResponse True
                (serialize_CMsgClientUpdateMachineAuthResponse env (SHA1 env blob)) (Some j),
              OnSentry (SHA1 env blob)]\<rparr>)"
  using assms by (simp add: handle_ClientUpdateMachineAuth_def emit_def Let_def)

theorem machine_auth_replies_with_digest_witness:
  "onSentry listening
   \<and> 3 \<le> length [97, 98, 99 :: byte]
   \<and> parse_CMsgClientUpdateMachineAuth (fixture_env False) (take 3 [97, 98, 99]) = [97, 98, 99]
   \<and> length (SHA1 (fixture_env False) [97, 98, 99]) = 20
   \<and> HandleMessage (fixture_env False) ClientUpdateMachineAuth [97, 98, 99] 3 7 listening
       = returns (listening\<lparr>trace :=
           [WriteMessage ClientUpdateMachineAuthResponse True sha1_abc (Some 7),
            OnSentry sha1_abc]\<rparr>)"
proof -
  have h1: "onSentry listening"
    by (simp add: listening_def)
  have h2: "3 \<le> length [97, 98, 99 :: byte]"
    by simp
  have h3: "parse_CMsgClientUpdateMachineAuth (fixture_env False) (take 3 [97, 98, 99])
              = [97, 98, 99]"
    by (simp add: fixture_env_def)
  have h4: "length (SHA1 (fixture_env False) [97, 98, 99]) = 20"
    by (simp add: fixture_env_def sha1_abc_def)
  have t: "trace listening = []"
    by (simp add: listening_def)
  have s: "SHA1 (fixture_env False) [97, 98, 99] = sha1_abc"
          "serialize_CMsgClientUpdateMachineAuthResponse (fixture_env False) sha1_abc = sha1_abc"
    by (simp_all add: fixture_env_def)
  show ?thesis
    using machine_auth_replies_with_digest [OF h1 h2 h3 h4, of 7] h1 h2 h3 h4
    by (simp add: t s)
qed

text \<open>
  C6 as stated fails for a client without a sentry callback: the same message, with
  job id 7, returns the client unchanged, its trace still empty, so no reply is sent.
\<close>

theorem machine_auth_no_reply_counterexample:
  "HandleMessage (fixture_env False) ClientUpdateMachineAuth [97, 98, 99] 3 7 deaf = returns deaf
   \<and> trace deaf = []"
  by (simp add: handle_ClientUpdateMachineAuth_def deaf_def)

section \<open>Chat messages\<close>

lemma c_str_terminated: "c_str (xs @ [0]) = c_str xs"
  by (induction xs) (simp_all add: c_str_def)

lemma c_str_no_null: "0 \<notin> set xs \<Longrightarrow> c_str xs = xs"
  by (induction xs) (auto simp: c_str_def)

lemma c_str_within: "0 \<in> set xs \<Longrightarrow> c_str (xs @ ys) = c_str xs"
  by (induction xs) (auto simp: c_str_def)

lemma find_null: "List.find (\<lambda>b. b = 0) xs = None \<longleftrightarrow> (0::byte) \<notin> set xs"
  by (auto simp: find_None_iff)

text \<open>
  C7. With a chat-message callback set and a declared length that covers the header
  and lies within the buffer, the callback is invoked once with the room and chatter
  identifiers of the header and with this text: when the trailing region (the bytes
  from the end of the header to the declared length) holds a null byte, the bytes of
  the region before its first null; otherwise the whole region.
\<close>

theorem chat_msg_text_cut_at_first_null:
  assumes "onChatMsg st"
    and "sizeof_MsgClientChatMsg (lay env) \<le> len"
    and "len \<le> length data"
    and "region = take (len - sizeof_MsgClientChatMsg (lay env))
                    (drop (sizeof_MsgClientChatMsg (lay env)) data)"
  shows "HandleMessage env ClientChatMsg data len job_id st =
           returns (st\<lparr>trace := trace st @
             [OnChatMsg (u64_at (off_steamIdChatRoom (lay env)) data)
                (u64_at (off_steamIdChatter (lay env)) data)
                (if 0 \<in> set region then takeWhile (\<lambda>b. b \<noteq> 0) region else region)]\<rparr>)"
proof (cases "0 \<in> set region")
  case True
  have "drop (sizeof_MsgClientChatMsg (lay env)) data =
          region @ drop (len - sizeof_MsgClientChatMsg (lay env))
                     (drop (sizeof_MsgClientChatMsg (lay env)) data)"
    unfolding assms(4) by (rule append_take_drop_id [symmetric])
  then have "c_str (drop (sizeof_MsgClientChatMsg (lay env)) data) = c_str region"
    using c_str_within [OF True] by metis
  then show ?thesis
    using assms True
    by (simp add: handle_ClientChatMsg_def Let_def find_null emit_def c_str_def
          field_readable_def)
next
  case False
  then have "c_str (region @ [0]) = region"
    by (simp add: c_str_terminated c_str_no_null)
  then show ?thesis
    using assms False
    by (simp add: handle_ClientChatMsg_def Let_def find_null emit_def field_readable_def)
qed

theorem chat_msg_text_cut_at_first_null_witness:
  "onChatMsg listening
   \<and> sizeof_MsgClientChatMsg (lay (fixture_env False)) \<le> 34
   \<and> 34 \<le> length chat_hello_trailing
   \<and> 25 \<le> length chat_hello
   \<and> HandleMessage (fixture_env False) ClientChatMsg chat_hello_trailing 34 0 listening
       = returns (listening\<lparr>trace := [OnChatMsg 2 1 [104, 101, 108, 108, 111]]\<rparr>)
   \<and> HandleMessage (fixture_env False) ClientChatMsg chat_hello 25 0 listening
       = returns (listening\<lparr>trace := [OnChatMsg 2 1 [104, 101, 108, 108, 111]]\<rparr>)"
proof -
  have sz: "sizeof_MsgClientChatMsg (lay (fixture_env False)) = 20"
           "off_steamIdChatRoom (lay (fixture_env False)) = 8"
           "off_steamIdChatter (lay (fixture_env False)) = 0"
    by (simp_all add: fixture_env_def fixture_layout_def)
  have h: "onChatMsg listening" "trace listening = []"
    by (simp_all add: listening_def)
  have l: "34 \<le> length chat_hello_trailing" "25 \<le> length chat_hello"
    by (simp_all add: chat_hello_trailing_def chat_hello_def chat_header_def)
  have s: "sizeof_MsgClientChatMsg (lay (fixture_env False)) \<le> 34"
          "sizeof_MsgClientChatMsg (lay (fixture_env False)) \<le> 25"
    by (simp_all add: sz)
  have r1: "[104, 101, 108, 108, 111, 0, 116, 114, 97, 105, 108, 105, 110, 103]
              = take (34 - sizeof_MsgClientChatMsg (lay (fixture_env False)))
                  (drop (sizeof_MsgClientChatMsg (lay (fixture_env False))) chat_hello_trailing)"
    by (simp add: sz chat_hello_trailing_def chat_header_def)
  have r2: "[104, 101, 108, 108, 111]
              = take (25 - sizeof_MsgClientChatMsg (lay (fixture_env False)))
                  (drop (sizeof_MsgClientChatMsg (lay (fixture_env False))) chat_hello)"
    by (simp add: sz chat_hello_def chat_header_def)
  have f: "u64_at 8 chat_hello_trailing = 2" "u64_at 0 chat_hello_trailing = 1"
          "u64_at 8 chat_hello = 2" "u64_at 0 chat_hello = 1"
    by (simp_all add: u64_at_def chat_hello_trailing_def chat_hello_def chat_header_def)
  show ?thesis
    using chat_msg_text_cut_at_first_null [OF h(1) s(1) l(1) r1, of 0]
          chat_msg_text_cut_at_first_null [OF h(1) s(2) l(2) r2, of 0]
    by (simp add: sz h l f)
qed

section \<open>Persona state\<close>

text \<open>
  With a user-info callback set, a message with exactly one friend record invokes the
  callback once with that record's identifier, identity source and display name
  (read as a C string), in either build. The only check of the count is the
  \<open>assert\<close> of line 189: any other count aborts a build that keeps assertions.
\<close>

lemma persona_state_in_both_builds:
  assumes "onUserInfo st"
    and "len \<le> length data"
    and "parse_CMsgClientPersonaState env (take len data) = friends"
  shows "(friends = [user] \<or> NDEBUG env \<and> friends = user # others \<longrightarrow>
            HandleMessage env ClientPersonaState data len job_id st =
              returns (st\<lparr>trace := trace st @
                [OnUserInfo (friendid user) (steamid_source user) (c_str (player_name user))]\<rparr>))
         \<and> (length friends \<noteq> 1 \<and> \<not> NDEBUG env \<longrightarrow>
            HandleMessage env ClientPersonaState data len job_id st = faults AssertionFailed st)"
  using assms
  by (auto simp: handle_ClientPersonaState_def Let_def emit_def c_str_terminated)

text \<open>
  C8 holds that a message with a friend-record count other than one is rejected with
  no callback invoked, and that one with exactly one record invokes the user-info
  callback with that record. The source states the requirement, in a comment and an
  \<open>assert\<close>, and runs past it: for a message with two records, a build with
  \<open>NDEBUG\<close> invokes the callback with the first record, and a build that keeps
  assertions aborts the process. A message with one record invokes the callback, as
  the claim says.
\<close>

theorem persona_state_two_friends_runs_past_assert:
  "onUserInfo listening
   \<and> length (parse_CMsgClientPersonaState (fixture_env True) (take 2 [5, 6])) = 2
   \<and> HandleMessage (fixture_env True) ClientPersonaState [5, 6] 2 0 listening
       = returns (listening\<lparr>trace := [OnUserInfo 5 1 [5]]\<rparr>)
   \<and> HandleMessage (fixture_env False) ClientPersonaState [5, 6] 2 0 listening
       = faults AssertionFailed listening
   \<and> HandleMessage (fixture_env False) ClientPersonaState [5, 6] 1 0 listening
       = returns (listening\<lparr>trace := [OnUserInfo 5 1 [5]]\<rparr>)"
  by (simp add: handle_ClientPersonaState_def fixture_env_def listening_def emit_def c_str_def
        faults_def returns_def)

section \<open>Short payloads\<close>




section \<open>Batches\<close>

text \<open>One turn of the loop, its exit, and the loop over well-formed records.\<close>

lemma and_then_returns: "and_then (returns st) f = f st"
  by (simp add: and_then_def returns_def)

lemma and_then_assoc: "and_then (and_then r f) g = and_then r (\<lambda>st. and_then (f st) g)"
  by (simp add: and_then_def split: option.splits sum.splits)

lemma and_then_returns_right: "and_then r returns = r"
  by (simp add: and_then_def returns_def split: option.splits sum.splits)

lemma unat_of_nat32: "n < 2 ^ 32 \<Longrightarrow> unat (of_nat n :: u32) = n"
  by (simp add: unat_of_nat)

lemma walk_step:
  assumes "unat offset < payload_size" and "unat offset + 4 \<le> length buf"
  shows "walk rm buf payload_size offset st =
           and_then (rm (drop (unat offset + 4) buf) (unat (u32_at (unat offset) buf)) st)
             (walk rm buf payload_size (offset + (4 + u32_at (unat offset) buf)))"
  using assms by (subst walk.simps) (simp add: and_then_def split: option.splits sum.splits)

lemma walk_done: "\<not> unat offset < payload_size \<Longrightarrow> walk rm buf payload_size offset st = returns st"
  by (subst walk.simps) (simp add: returns_def)

lemma walk_short:
  "unat offset < payload_size \<Longrightarrow> length buf < unat offset + 4 \<Longrightarrow>
     walk rm buf payload_size offset st = faults UndefinedBehaviour st"
  by (subst walk.simps) (simp add: faults_def)

lemma walk_frame:
  assumes "length pre + length (frame bodies) \<le> payload_size"
    and "length pre + length (frame bodies) < 2 ^ 32"
  shows "walk rm (pre @ frame bodies @ rest) payload_size (of_nat (length pre)) st =
           and_then (dispatch_all rm bodies rest st)
             (walk rm (pre @ frame bodies @ rest) payload_size
                (of_nat (length pre + length (frame bodies))))"
  using assms
proof (induction bodies arbitrary: pre st)
  case Nil
  then show ?case by (simp add: and_then_returns)
next
  case (Cons b bs)
  let ?buf = "pre @ frame (b # bs) @ rest"
  let ?pre = "pre @ le32 (of_nat (length b)) @ b"
  have buf: "?buf = ?pre @ frame bs @ rest"
    by simp
  have len: "length ?pre + length (frame bs) = length pre + length (frame (b # bs))"
    by (simp add: length_le32)
  have o: "unat (of_nat (length pre) :: u32) = length pre"
    using Cons.prems(2) by (intro unat_of_nat32) simp
  have b: "unat (of_nat (length b) :: u32) = length b"
    using Cons.prems(2) by (intro unat_of_nat32) (simp add: length_le32)
  have sub: "u32_at (length pre) ?buf = of_nat (length b)"
    using u32_at_le32 [of pre "of_nat (length b)" "b @ frame bs @ rest"] by simp
  have view: "drop (length pre + 4) ?buf = b @ frame bs @ rest"
    by (simp add: length_le32)
  have next_off: "(of_nat (length pre) :: u32) + (4 + of_nat (length b)) = of_nat (length ?pre)"
    by (simp add: length_le32)
  have "walk rm ?buf payload_size (of_nat (length pre)) st =
          and_then (rm (b @ frame bs @ rest) (length b) st)
            (walk rm ?buf payload_size (of_nat (length ?pre)))"
    using Cons.prems(1) walk_step [of "of_nat (length pre)" payload_size ?buf rm st]
    unfolding o sub b view next_off by (simp add: length_le32)
  also have "walk rm ?buf payload_size (of_nat (length ?pre)) =
               (\<lambda>st'. and_then (dispatch_all rm bs rest st')
                  (walk rm ?buf payload_size (of_nat (length ?pre + length (frame bs)))))"
  proof (rule ext)
    fix st'
    show "walk rm ?buf payload_size (of_nat (length ?pre)) st' =
            and_then (dispatch_all rm bs rest st')
              (walk rm ?buf payload_size (of_nat (length ?pre + length (frame bs))))"
      using Cons.IH [of ?pre st'] Cons.prems unfolding buf len by simp
  qed
  finally show ?case
    unfolding len by (simp add: and_then_assoc)
qed

lemma walk_frame_all:
  assumes "length (frame bodies) \<le> payload_size"
    and "length (frame bodies) < 2 ^ 32"
  shows "walk rm (frame bodies @ rest) payload_size 0 st =
           and_then (dispatch_all rm bodies rest st)
             (walk rm (frame bodies @ rest) payload_size (of_nat (length (frame bodies))))"
  using walk_frame [of "[]" bodies payload_size rm rest st] assms by simp

text \<open>
  C5. A batch message whose declared uncompressed size is 0 and whose payload is a
  well-formed concatenation of records (each body behind its \<open>u32\<close> length, the
  whole shorter than \<open>2 ^ 32\<close> bytes, which a payload parsed out of a protobuf
  message is) is handled by submitting the bodies to \<open>ReadMessage\<close> one by one, in
  record order. Each call gets the pointer to its body and the length of exactly that
  body, and the walk ends when the payload is consumed. Behind the payload lies the
  terminator of the string that holds it.
\<close>

theorem uncompressed_batch_dispatches_each_record:
  assumes "len \<le> length data"
    and "parse_CMsgMulti env (take len data) = (0, frame bodies)"
    and "length (frame bodies) < 2 ^ 32"
  shows "HandleMessage env Multi data len job_id st =
           dispatch_all (ReadMessage env) bodies [0] st"
proof -
  let ?rm = "ReadMessage env"
  let ?n = "length (frame bodies)"
  have "unat (of_nat ?n :: u32) = ?n"
    using assms(3) by (rule unat_of_nat32)
  then have "walk ?rm (frame bodies @ [0]) ?n (of_nat ?n) = returns"
    by (intro ext walk_done) simp
  then have "walk ?rm (frame bodies @ [0]) ?n 0 st = dispatch_all ?rm bodies [0] st"
    using walk_frame_all [of bodies ?n ?rm "[0]" st] assms(3)
    by (simp add: and_then_returns_right)
  then show ?thesis
    using assms(1,2) by (simp add: handle_Multi_def)
qed

theorem uncompressed_batch_dispatches_each_record_witness:
  "20 \<le> length [0, 0, 0, 0, 3, 0, 0, 0, 1, 2, 3, 5, 0, 0, 0, 4, 5, 6, 7, 8 :: byte]
   \<and> parse_CMsgMulti (fixture_env False)
         (take 20 [0, 0, 0, 0, 3, 0, 0, 0, 1, 2, 3, 5, 0, 0, 0, 4, 5, 6, 7, 8])
       = (0, frame [[1, 2, 3], [4, 5, 6, 7, 8]])
   \<and> length (frame [[1, 2, 3], [4, 5, 6, 7, 8]]) < 2 ^ 32
   \<and> HandleMessage (fixture_env False) Multi
         [0, 0, 0, 0, 3, 0, 0, 0, 1, 2, 3, 5, 0, 0, 0, 4, 5, 6, 7, 8] 20 0 listening
       = returns (listening\<lparr>trace := [SubMessage [1, 2, 3], SubMessage [4, 5, 6, 7, 8]]\<rparr>)"
proof -
  have h1: "20 \<le> length [0, 0, 0, 0, 3, 0, 0, 0, 1, 2, 3, 5, 0, 0, 0, 4, 5, 6, 7, 8 :: byte]"
    by simp
  have h2: "parse_CMsgMulti (fixture_env False)
              (take 20 [0, 0, 0, 0, 3, 0, 0, 0, 1, 2, 3, 5, 0, 0, 0, 4, 5, 6, 7, 8])
            = (0, frame [[1, 2, 3], [4, 5, 6, 7, 8]])"
    by (simp add: fixture_env_def u32_at_def le32_bytes)
  have h3: "length (frame [[1, 2, 3], [4, 5, 6, 7, 8]]) < 2 ^ 32"
    by (simp add: le32_bytes)
  have rm: "ReadMessage (fixture_env False) = (\<lambda>p n st. returns (emit (SubMessage (take n p)) st))"
    by (simp add: fixture_env_def)
  have d: "dispatch_all (ReadMessage (fixture_env False)) [[1, 2, 3], [4, 5, 6, 7, 8]] [0] listening
           = returns (listening\<lparr>trace := [SubMessage [1, 2, 3], SubMessage [4, 5, 6, 7, 8]]\<rparr>)"
    by (simp add: rm and_then_returns emit_def listening_def)
  show ?thesis
    using uncompressed_batch_dispatches_each_record [OF h1 h2 h3, of 0 listening] h1 h2 h3
    by (simp only: d)
qed

lemma unzip_checked:
  "\<not> NDEBUG env \<Longrightarrow>
     unzip env size_unzipped payload st =
       (if container_ok (archive_read env payload) (unat size_unzipped)
        then Inr (take (unat size_unzipped)
                    (snd (read_data (archive_read env payload) (unat size_unzipped))))
        else Inl (AssertionFailed, st))"
  by (simp add: unzip_def container_ok_def Let_def)

lemma unzip_unchecked:
  "NDEBUG env \<Longrightarrow>
     unzip env size_unzipped payload st =
       Inr (take (unat size_unzipped)
              (snd (read_data (archive_read env payload) (unat size_unzipped))))"
  by (simp add: unzip_def Let_def)

lemma Multi_uncompressed:
  assumes "len \<le> length data"
    and "parse_CMsgMulti env (take len data) = (0, payload)"
  shows "HandleMessage env Multi data len job_id st =
           walk (ReadMessage env) (payload @ [0]) (length payload) 0 st"
  using assms by (simp add: handle_Multi_def)

lemma Multi_walked:
  assumes "len \<le> length data"
    and "parse_CMsgMulti env (take len data) = (size_unzipped, payload)"
    and "walked env size_unzipped payload = Some (records, rest)"
  shows "HandleMessage env Multi data len job_id st =
           walk (ReadMessage env) (records @ rest) (length records) 0 st"
proof (cases "size_unzipped = 0")
  case True
  with assms show ?thesis
    by (simp add: handle_Multi_def walked_def)
next
  case False
  let ?n = "unat size_unzipped"
  let ?a = "archive_read env payload"
  from False assms(3) have ok: "container_ok ?a ?n" and len: "length records = ?n"
    and rec: "records = snd (read_data ?a ?n)" and rest: "rest = []"
    by (auto simp: walked_def Let_def split: if_splits)
  have "unzip env size_unzipped payload st = Inr records"
    using ok len rec by (cases "NDEBUG env") (simp_all add: unzip_checked unzip_unchecked)
  moreover have "0 < size_unzipped"
    using False by (simp add: word_greater_zero_iff)
  ultimately show ?thesis
    using assms(1,2) len rest by (simp add: handle_Multi_def)
qed

text \<open>
  C3, as the code has it. Take a batch whose declared length lies within the
  readable bytes, uncompressed or compressed in a container that meets every
  requirement, whose walked bytes number less than \<open>2 ^ 32\<close>. The
  walk does no length accounting and ends in no framing error. When the complete
  records are followed by a record whose declared length \<open>n\<close> overruns the bytes
  \<open>tail\<close> that are left, and the bytes before that record plus 4 plus \<open>n\<close> stay
  below \<open>2 ^ 32\<close>, so that the 32-bit \<open>offset\<close> does not wrap, the complete
  records are dispatched in order, then \<open>ReadMessage\<close> is called on \<open>tail\<close> with
  the declared length \<open>n\<close>, and the walk ends with whatever that call yields. When
  the complete records are followed by stray bytes too few for a length field to be
  readable (one or two in an uncompressed payload, behind which the terminator is
  readable too; one to three in a decompressed buffer), the walk reads the length
  out of bounds after dispatching the complete records.
\<close>

theorem overrunning_record_is_passed_on:
  assumes "len \<le> length data"
    and "parse_CMsgMulti env (take len data) = (size_unzipped, payload)"
    and "walked env size_unzipped payload = Some (frame bodies @ fragment, rest)"
    and "length (frame bodies @ fragment) < 2 ^ 32"
  shows "(fragment = le32 n @ tail \<and> length tail < unat n
            \<and> length (frame bodies) + 4 + unat n < 2 ^ 32 \<longrightarrow>
          HandleMessage env Multi data len job_id st =
            and_then (dispatch_all (ReadMessage env) bodies (fragment @ rest) st)
              (ReadMessage env (tail @ rest) (unat n)))
       \<and> (fragment \<noteq> [] \<and> length (fragment @ rest) < 4 \<longrightarrow>
          HandleMessage env Multi data len job_id st =
            and_then (dispatch_all (ReadMessage env) bodies (fragment @ rest) st)
              (faults UndefinedBehaviour))"
proof -
  let ?rm = "ReadMessage env"
  let ?k = "length (frame bodies)"
  let ?buf = "frame bodies @ fragment @ rest"
  let ?psz = "?k + length fragment"
  have k: "unat (of_nat ?k :: u32) = ?k"
    using assms(4) by (intro unat_of_nat32) simp
  have "HandleMessage env Multi data len job_id st = walk ?rm ?buf ?psz 0 st"
    using Multi_walked [OF assms(1-3), of job_id st] by simp
  then have hm: "HandleMessage env Multi data len job_id st =
              and_then (dispatch_all ?rm bodies (fragment @ rest) st)
                (walk ?rm ?buf ?psz (of_nat ?k))"
    using walk_frame_all [of bodies ?psz ?rm "fragment @ rest" st] assms(4) by simp
  show ?thesis
  proof (intro conjI impI)
    assume a: "fragment = le32 n @ tail \<and> length tail < unat n
                 \<and> length (frame bodies) + 4 + unat n < 2 ^ 32"
    have sub: "u32_at ?k ?buf = n"
      using a u32_at_le32 [of "frame bodies" n "tail @ rest"] by simp
    have view: "drop (?k + 4) ?buf = tail @ rest"
      using a by (simp add: length_le32)
    have "(of_nat ?k :: u32) + (4 + n) = of_nat (?k + 4 + unat n)"
      by simp
    then have off: "unat ((of_nat ?k :: u32) + (4 + n)) = ?k + 4 + unat n"
      using a unat_of_nat32 [of "?k + 4 + unat n"] by (simp add: add.assoc)
    have "walk ?rm ?buf ?psz (of_nat ?k) st' =
            and_then (?rm (tail @ rest) (unat n) st') returns" for st'
    proof -
      have "walk ?rm ?buf ?psz (of_nat ?k + (4 + n)) = returns"
        using a off by (intro ext walk_done) (simp add: length_le32)
      then show ?thesis
        using a walk_step [of "of_nat ?k" ?psz ?buf ?rm st']
        unfolding k sub view by (simp add: length_le32)
    qed
    then have "walk ?rm ?buf ?psz (of_nat ?k) = ?rm (tail @ rest) (unat n)"
      by (intro ext) (simp add: and_then_returns_right)
    then show "HandleMessage env Multi data len job_id st =
            and_then (dispatch_all ?rm bodies (fragment @ rest) st) (?rm (tail @ rest) (unat n))"
      using hm by simp
  next
    assume a: "fragment \<noteq> [] \<and> length (fragment @ rest) < 4"
    then have "0 < length fragment"
      by simp
    then have "walk ?rm ?buf ?psz (of_nat ?k) = faults UndefinedBehaviour"
      using a by (intro ext walk_short) (simp_all add: k)
    then show "HandleMessage env Multi data len job_id st =
            and_then (dispatch_all ?rm bodies (fragment @ rest) st) (faults UndefinedBehaviour)"
      using hm by simp
  qed
qed


theorem overrunning_record_is_passed_on_witness:
  "17 \<le> length batch_overrun
   \<and> parse_CMsgMulti (fixture_env False) (take 17 batch_overrun) = (0, drop 4 batch_overrun)
   \<and> walked (fixture_env False) 0 (drop 4 batch_overrun)
       = Some (frame [[7, 8]] @ le32 5 @ [1, 2, 3], [0])
   \<and> length [1, 2, 3 :: byte] < unat (5 :: u32)
   \<and> HandleMessage (fixture_env False) Multi batch_overrun 17 0 listening
       = returns (listening\<lparr>trace := [SubMessage [7, 8], SubMessage [1, 2, 3, 0]]\<rparr>)
   \<and> 12 \<le> length batch_stray
   \<and> parse_CMsgMulti (fixture_env False) (take 12 batch_stray) = (0, drop 4 batch_stray)
   \<and> walked (fixture_env False) 0 (drop 4 batch_stray) = Some (frame [[7, 8]] @ [9, 9], [0])
   \<and> length ([9, 9 :: byte] @ [0]) < 4
   \<and> HandleMessage (fixture_env False) Multi batch_stray 12 0 listening
       = faults UndefinedBehaviour (listening\<lparr>trace := [SubMessage [7, 8]]\<rparr>)
   \<and> 19 \<le> length zip_overrun
   \<and> parse_CMsgMulti (fixture_env False) (take 19 zip_overrun) = (13, drop 4 zip_overrun)
   \<and> walked (fixture_env False) 13 (drop 4 zip_overrun)
       = Some (frame [[7, 8]] @ le32 5 @ [1, 2, 3], [])
   \<and> HandleMessage (fixture_env False) Multi zip_overrun 19 0 listening
       = returns (listening\<lparr>trace := [SubMessage [7, 8], SubMessage [1, 2, 3]]\<rparr>)"
proof -
  let ?env = "fixture_env False"
  let ?rm = "ReadMessage ?env"
  have a1: "17 \<le> length batch_overrun"
    by (simp add: batch_overrun_def)
  have a2: "parse_CMsgMulti ?env (take 17 batch_overrun) = (0, drop 4 batch_overrun)"
    by (simp add: fixture_parse_CMsgMulti u32_at_def batch_overrun_def)
  have a3: "walked ?env 0 (drop 4 batch_overrun) = Some (frame [[7, 8]] @ le32 5 @ [1, 2, 3], [0])"
    by (simp add: walked_def batch_overrun_def le32_bytes)
  have a4: "length (frame [[7, 8]] @ le32 5 @ [1, 2, 3 :: byte]) < 2 ^ 32"
    by (simp add: length_le32)
  have a5: "le32 5 @ [1, 2, 3] = le32 5 @ [1, 2, 3] \<and> length [1, 2, 3 :: byte] < unat (5 :: u32)
              \<and> length (frame [[7, 8]]) + 4 + unat (5 :: u32) < 2 ^ 32"
    by (simp add: length_le32)
  have b1: "12 \<le> length batch_stray"
    by (simp add: batch_stray_def)
  have b2: "parse_CMsgMulti ?env (take 12 batch_stray) = (0, drop 4 batch_stray)"
    by (simp add: fixture_parse_CMsgMulti u32_at_def batch_stray_def)
  have b3: "walked ?env 0 (drop 4 batch_stray) = Some (frame [[7, 8]] @ [9, 9], [0])"
    by (simp add: walked_def batch_stray_def le32_bytes)
  have b4: "length (frame [[7, 8]] @ [9, 9 :: byte]) < 2 ^ 32"
    by (simp add: length_le32)
  have b5: "[9, 9 :: byte] \<noteq> [] \<and> length ([9, 9 :: byte] @ [0]) < 4"
    by simp
  have c1: "19 \<le> length zip_overrun"
    by (simp add: zip_overrun_def)
  have c2: "parse_CMsgMulti ?env (take 19 zip_overrun) = (13, drop 4 zip_overrun)"
    by (simp add: fixture_parse_CMsgMulti u32_at_def zip_overrun_def)
  have c3: "walked ?env 13 (drop 4 zip_overrun) = Some (frame [[7, 8]] @ le32 5 @ [1, 2, 3], [])"
    by (simp add: walked_def zip_overrun_def le32_bytes fixture_archive_read fixture_archive_def
          container_ok_def ARCHIVE_OK_def ARCHIVE_EOF_def)
  from overrunning_record_is_passed_on [OF a1 a2 a3 a4, of 5 "[1, 2, 3]" 0 listening] a5
  have 1: "HandleMessage ?env Multi batch_overrun 17 0 listening
             = and_then (dispatch_all ?rm [[7, 8]] ((le32 5 @ [1, 2, 3]) @ [0]) listening)
                 (?rm ([1, 2, 3] @ [0]) (unat (5 :: u32)))"
    by blast
  from overrunning_record_is_passed_on [OF b1 b2 b3 b4, of _ _ 0 listening] b5
  have 2: "HandleMessage ?env Multi batch_stray 12 0 listening
             = and_then (dispatch_all ?rm [[7, 8]] ([9, 9] @ [0]) listening)
                 (faults UndefinedBehaviour)"
    by blast
  from overrunning_record_is_passed_on [OF c1 c2 c3 a4, of 5 "[1, 2, 3]" 0 listening] a5
  have 3: "HandleMessage ?env Multi zip_overrun 19 0 listening
             = and_then (dispatch_all ?rm [[7, 8]] ((le32 5 @ [1, 2, 3]) @ []) listening)
                 (?rm ([1, 2, 3] @ []) (unat (5 :: u32)))"
    by blast
  have r1: "and_then (dispatch_all ?rm [[7, 8]] ((le32 5 @ [1, 2, 3]) @ [0]) listening)
                 (?rm ([1, 2, 3] @ [0]) (unat (5 :: u32)))
            = returns (listening\<lparr>trace := [SubMessage [7, 8], SubMessage [1, 2, 3, 0]]\<rparr>)"
    by (simp add: and_then_returns fixture_ReadMessage emit_def listening_def)
  have r2: "and_then (dispatch_all ?rm [[7, 8]] ([9, 9] @ [0]) listening)
                 (faults UndefinedBehaviour)
            = faults UndefinedBehaviour (listening\<lparr>trace := [SubMessage [7, 8]]\<rparr>)"
    by (simp add: and_then_returns fixture_ReadMessage emit_def listening_def)
  have r3: "and_then (dispatch_all ?rm [[7, 8]] ((le32 5 @ [1, 2, 3]) @ []) listening)
                 (?rm ([1, 2, 3] @ []) (unat (5 :: u32)))
            = returns (listening\<lparr>trace := [SubMessage [7, 8], SubMessage [1, 2, 3]]\<rparr>)"
    by (simp add: and_then_returns fixture_ReadMessage emit_def listening_def)
  show ?thesis
    using a1 a2 a3 a5 b1 b2 b3 b5 c1 c2 c3 1 2 3 unfolding r1 r2 r3 by blast
qed

text \<open>
  C3 as stated fails: a batch whose only record declares 5 bytes and holds 3 raises
  nothing. \<open>ReadMessage\<close> is called with length 5 (the logged sub-message runs over
  the end of the payload into the terminator) and the handler returns.
\<close>

theorem overrunning_record_counterexample:
  "parse_CMsgMulti (fixture_env False) (take 11 [0, 0, 0, 0, 5, 0, 0, 0, 1, 2, 3])
     = (0, [5, 0, 0, 0, 1, 2, 3])
   \<and> HandleMessage (fixture_env False) Multi [0, 0, 0, 0, 5, 0, 0, 0, 1, 2, 3] 11 0 listening
       = returns (listening\<lparr>trace := [SubMessage [1, 2, 3, 0]]\<rparr>)"
proof -
  let ?rm = "ReadMessage (fixture_env False)"
  have l: "11 \<le> length [0, 0, 0, 0, 5, 0, 0, 0, 1, 2, 3 :: byte]"
    by simp
  have p: "parse_CMsgMulti (fixture_env False) (take 11 [0, 0, 0, 0, 5, 0, 0, 0, 1, 2, 3])
             = (0, [5, 0, 0, 0, 1, 2, 3])"
    by (simp add: fixture_parse_CMsgMulti u32_at_def)
  have l7: "length [5, 0, 0, 0, 1, 2, 3 :: byte] = 7"
    by simp
  have s: "u32_at 0 [5, 0, 0, 0, 1, 2, 3, 0] = 5"
    by (simp add: u32_at_def)
  have "walk ?rm [5, 0, 0, 0, 1, 2, 3, 0] 7 9 = returns"
    by (intro ext walk_done) simp
  then have w: "walk ?rm [5, 0, 0, 0, 1, 2, 3, 0] 7 0 listening
                  = returns (listening\<lparr>trace := [SubMessage [1, 2, 3, 0]]\<rparr>)"
    using walk_step [of 0 7 "[5, 0, 0, 0, 1, 2, 3, 0]" ?rm listening]
    by (simp add: s fixture_ReadMessage and_then_returns emit_def listening_def)
  have "HandleMessage (fixture_env False) Multi [0, 0, 0, 0, 5, 0, 0, 0, 1, 2, 3] 11 0 listening
          = walk ?rm ([5, 0, 0, 0, 1, 2, 3] @ [0]) (length [5, 0, 0, 0, 1, 2, 3 :: byte]) 0 listening"
    by (rule Multi_uncompressed [OF l p])
  also have "\<dots> = walk ?rm [5, 0, 0, 0, 1, 2, 3, 0] 7 0 listening"
    unfolding l7 by simp
  finally show ?thesis
    using p w by simp
qed

text \<open>
  A compressed batch in both builds. Every requirement on the container is an
  \<open>assert\<close> (lines 92 to 112): when one fails, a build that keeps assertions aborts
  before a sub-message is dispatched. When all hold and the entry holds well-formed
  records, the bodies are dispatched one by one, in order, in either build.
\<close>

lemma compressed_batch_in_both_builds:
  assumes "len \<le> length data"
    and "parse_CMsgMulti env (take len data) = (size_unzipped, payload)"
    and "0 < size_unzipped"
    and "a = archive_read env payload"
    and "n = unat size_unzipped"
  shows "(\<not> NDEBUG env \<and> \<not> container_ok a n \<longrightarrow>
            HandleMessage env Multi data len job_id st = faults AssertionFailed st)
       \<and> (NDEBUG env \<or> container_ok a n \<longrightarrow>
            HandleMessage env Multi data len job_id st =
              walk (ReadMessage env) (take n (snd (read_data a n))) n 0 st)
       \<and> (container_ok a n \<and> snd (read_data a n) = frame bodies \<and> length (frame bodies) = n \<longrightarrow>
            HandleMessage env Multi data len job_id st =
              dispatch_all (ReadMessage env) bodies [] st)"
proof (intro conjI impI)
  assume "\<not> NDEBUG env \<and> \<not> container_ok a n"
  then show "HandleMessage env Multi data len job_id st = faults AssertionFailed st"
    using assms by (simp add: handle_Multi_def unzip_checked faults_def)
next
  assume "NDEBUG env \<or> container_ok a n"
  then show "HandleMessage env Multi data len job_id st =
               walk (ReadMessage env) (take n (snd (read_data a n))) n 0 st"
    using assms by (cases "NDEBUG env") (simp_all add: handle_Multi_def unzip_checked unzip_unchecked)
next
  assume c: "container_ok a n \<and> snd (read_data a n) = frame bodies \<and> length (frame bodies) = n"
  let ?rm = "ReadMessage env"
  have n: "n < 2 ^ 32"
    using assms(5) unsigned_less [of size_unzipped, where ?'a = nat] by simp
  have "HandleMessage env Multi data len job_id st = walk ?rm (take n (frame bodies)) n 0 st"
    using assms c
    by (cases "NDEBUG env") (simp_all add: handle_Multi_def unzip_checked unzip_unchecked)
  also have "\<dots> = walk ?rm (frame bodies @ []) n 0 st"
    using c by simp
  also have "\<dots> = and_then (dispatch_all ?rm bodies [] st)
                      (walk ?rm (frame bodies @ []) n (of_nat (length (frame bodies))))"
    using c n by (intro walk_frame_all) simp_all
  also have "walk ?rm (frame bodies @ []) n (of_nat (length (frame bodies))) = returns"
    using c n by (intro ext walk_done) (simp add: unat_of_nat32)
  finally show "HandleMessage env Multi data len job_id st = dispatch_all ?rm bodies [] st"
    by (simp add: and_then_returns_right)
qed

lemma walk_one_record:
  "walk (ReadMessage (fixture_env d)) [3, 0, 0, 0, 1, 2, 3] 7 0 listening
     = returns (listening\<lparr>trace := [SubMessage [1, 2, 3]]\<rparr>)"
proof -
  let ?rm = "ReadMessage (fixture_env d)"
  have s: "u32_at 0 [3, 0, 0, 0, 1, 2, 3] = 3"
    by (simp add: u32_at_def)
  have "walk ?rm [3, 0, 0, 0, 1, 2, 3] 7 7 = returns"
    by (intro ext walk_done) simp
  then show ?thesis
    using walk_step [of 0 7 "[3, 0, 0, 0, 1, 2, 3]" ?rm listening]
    by (simp add: s fixture_ReadMessage and_then_returns emit_def listening_def)
qed

lemma Multi_compressed_unchecked:
  assumes "NDEBUG env"
    and "len \<le> length data"
    and "parse_CMsgMulti env (take len data) = (size_unzipped, payload)"
    and "0 < size_unzipped"
  shows "HandleMessage env Multi data len job_id st =
           walk (ReadMessage env)
             (take (unat size_unzipped)
                (snd (read_data (archive_read env payload) (unat size_unzipped))))
             (unat size_unzipped) 0 st"
  using assms by (simp add: handle_Multi_def unzip_unchecked)

text \<open>
  C4 holds that a compressed batch whose container deviates from the one entry named
  \<open>z\<close> of the declared size is refused, rather than handled in part. The source
  states each requirement, as an \<open>assert\<close>, and runs past them: for a container
  whose entry is named \<open>y\<close>, a build with \<open>NDEBUG\<close> dispatches the record that the
  entry holds, and a build that keeps assertions aborts the process.
\<close>

theorem wrong_entry_name_runs_past_asserts:
  "entry_pathname (archive_read (fixture_env True) [1, 121, 3, 0, 0, 0, 1, 2, 3]) \<noteq> ''z''
   \<and> parse_CMsgMulti (fixture_env True) (take 13 [7, 0, 0, 0, 1, 121, 3, 0, 0, 0, 1, 2, 3])
       = (7, [1, 121, 3, 0, 0, 0, 1, 2, 3])
   \<and> HandleMessage (fixture_env True) Multi [7, 0, 0, 0, 1, 121, 3, 0, 0, 0, 1, 2, 3] 13 0 listening
       = returns (listening\<lparr>trace := [SubMessage [1, 2, 3]]\<rparr>)
   \<and> HandleMessage (fixture_env False) Multi [7, 0, 0, 0, 1, 121, 3, 0, 0, 0, 1, 2, 3] 13 0 listening
       = faults AssertionFailed listening"
proof -
  have l: "13 \<le> length [7, 0, 0, 0, 1, 121, 3, 0, 0, 0, 1, 2, 3 :: byte]"
    by simp
  have p: "parse_CMsgMulti (fixture_env d) (take 13 [7, 0, 0, 0, 1, 121, 3, 0, 0, 0, 1, 2, 3])
             = (7, [1, 121, 3, 0, 0, 0, 1, 2, 3])" for d
    by (simp add: fixture_parse_CMsgMulti u32_at_def)
  have nd: "NDEBUG (fixture_env True)" "\<not> NDEBUG (fixture_env False)"
    by (simp_all add: fixture_env_def)
  have name: "entry_pathname (archive_read (fixture_env True) [1, 121, 3, 0, 0, 0, 1, 2, 3]) \<noteq> ''z''"
    by (simp add: fixture_archive_read fixture_archive_def)
  have buf: "take (unat (7 :: u32))
               (snd (read_data (archive_read (fixture_env True) [1, 121, 3, 0, 0, 0, 1, 2, 3])
                       (unat (7 :: u32)))) = [3, 0, 0, 0, 1, 2, 3]"
    by (simp add: fixture_archive_read fixture_archive_def)
  have "HandleMessage (fixture_env True) Multi [7, 0, 0, 0, 1, 121, 3, 0, 0, 0, 1, 2, 3] 13 0 listening
          = walk (ReadMessage (fixture_env True)) [3, 0, 0, 0, 1, 2, 3] (unat (7 :: u32)) 0 listening"
    using Multi_compressed_unchecked [OF nd(1) l p, of 0 listening] unfolding buf by simp
  also have "\<dots> = returns (listening\<lparr>trace := [SubMessage [1, 2, 3]]\<rparr>)"
    using walk_one_record [of True] by simp
  finally have 1: "HandleMessage (fixture_env True) Multi
                     [7, 0, 0, 0, 1, 121, 3, 0, 0, 0, 1, 2, 3] 13 0 listening
                   = returns (listening\<lparr>trace := [SubMessage [1, 2, 3]]\<rparr>)" .
  have pos: "(0 :: u32) < 7"
    by simp
  have a: "fixture_archive [1, 121, 3, 0, 0, 0, 1, 2, 3]
             = archive_read (fixture_env False) [1, 121, 3, 0, 0, 0, 1, 2, 3]"
    by (simp add: fixture_archive_read)
  have n: "7 = unat (7 :: u32)"
    by simp
  have bad: "\<not> container_ok (fixture_archive [1, 121, 3, 0, 0, 0, 1, 2, 3]) 7"
    by (simp add: container_ok_def fixture_archive_def)
  from compressed_batch_in_both_builds [OF l p pos a n, of 0 listening] nd(2) bad
  have 2: "HandleMessage (fixture_env False) Multi [7, 0, 0, 0, 1, 121, 3, 0, 0, 0, 1, 2, 3]
             13 0 listening = faults AssertionFailed listening"
    by blast
  from name p 1 2 show ?thesis
    by blast
qed

section \<open>Further properties of the handlers\<close>

lemma walk_returns_only_past_wrapping_record:
  assumes "walk rm buf payload_size offset st = Some y"
  shows "\<not> (unat offset < payload_size \<and> unat offset + 4 \<le> length buf
            \<and> u32_at (unat offset) buf = 0xFFFFFFFC
            \<and> (\<forall>s. \<exists>s'. rm (drop (unat offset + 4) buf) 4294967292 s = Some (Inr s')))"
proof (rule walk.raw_induct
    [where P = "\<lambda>rm buf payload_size offset st y.
       \<not> (unat offset < payload_size \<and> unat offset + 4 \<le> length buf
            \<and> u32_at (unat offset) buf = 0xFFFFFFFC
            \<and> (\<forall>s. \<exists>s'. rm (drop (unat offset + 4) buf) 4294967292 s = Some (Inr s')))",
     OF _ assms])
  fix walk' :: "(byte list \<Rightarrow> nat \<Rightarrow> client \<Rightarrow> outcome) \<Rightarrow> byte list \<Rightarrow> nat \<Rightarrow> u32 \<Rightarrow> client
                  \<Rightarrow> (fault \<times> client + client) option"
    and rm buf payload_size and offset :: u32 and st y
  assume IH: "\<And>rm buf payload_size offset st y.
                walk' rm buf payload_size offset st = Some y \<Longrightarrow>
                \<not> (unat offset < payload_size \<and> unat offset + 4 \<le> length buf
                     \<and> u32_at (unat offset) buf = 0xFFFFFFFC
                     \<and> (\<forall>s. \<exists>s'. rm (drop (unat offset + 4) buf) 4294967292 s = Some (Inr s')))"
    and step: "(if unat offset < payload_size
                then if length buf < unat offset + 4
                     then Some (Inl (UndefinedBehaviour, st))
                     else (case rm (drop (unat offset + 4) buf) (unat (u32_at (unat offset) buf)) st of
                             None \<Rightarrow> None
                           | Some (Inl f) \<Rightarrow> Some (Inl f)
                           | Some (Inr st') \<Rightarrow>
                               walk' rm buf payload_size (offset + (4 + u32_at (unat offset) buf)) st')
                else Some (Inr st)) = Some y"
  show "\<not> (unat offset < payload_size \<and> unat offset + 4 \<le> length buf
            \<and> u32_at (unat offset) buf = 0xFFFFFFFC
            \<and> (\<forall>s. \<exists>s'. rm (drop (unat offset + 4) buf) 4294967292 s = Some (Inr s')))"
  proof
    assume c: "unat offset < payload_size \<and> unat offset + 4 \<le> length buf
               \<and> u32_at (unat offset) buf = 0xFFFFFFFC
               \<and> (\<forall>s. \<exists>s'. rm (drop (unat offset + 4) buf) 4294967292 s = Some (Inr s'))"
    then obtain s' where s': "rm (drop (unat offset + 4) buf) 4294967292 st = Some (Inr s')"
      by blast
    have "(4294967296 :: u32) = 0"
      by simp
    with step c s' have "walk' rm buf payload_size offset s' = Some y"
      by simp
    from IH [OF this] c show False
      by blast
  qed
qed

text \<open>
  The walk can fail to end. A record that declares the length \<open>0xFFFFFFFC\<close>
  makes \<open>offset += 4 + subSize\<close> wrap around to the offset it started from: when
  an uncompressed batch begins with such a record and \<open>ReadMessage\<close> returns on it,
  the handler submits the same record again and again and never returns.
\<close>

theorem batch_with_wrapping_length_never_returns:
  assumes "len \<le> length data"
    and "parse_CMsgMulti env (take len data) = (0, le32 0xFFFFFFFC @ rest)"
    and "ReadMessage env (rest @ [0]) 4294967292 = (\<lambda>s. returns (f s))"
  shows "HandleMessage env Multi data len job_id st = None"
proof (rule ccontr)
  let ?buf = "(le32 0xFFFFFFFC @ rest) @ [0]"
  assume "HandleMessage env Multi data len job_id st \<noteq> None"
  then obtain y where "walk (ReadMessage env) ?buf (length (le32 0xFFFFFFFC @ rest)) 0 st = Some y"
    using assms(1,2) by (auto simp: handle_Multi_def)
  moreover have "u32_at (unat (0 :: u32)) ?buf = 0xFFFFFFFC"
    using u32_at_le32 [of "[]" "0xFFFFFFFC" "rest @ [0]"] by simp
  moreover have "drop (unat (0 :: u32) + 4) ?buf = rest @ [0]"
    by (simp add: length_le32)
  ultimately show False
    using walk_returns_only_past_wrapping_record
            [of "ReadMessage env" ?buf "length (le32 0xFFFFFFFC @ rest)" 0 st y] assms(3)
    by (simp add: length_le32 returns_def)
qed

theorem batch_with_wrapping_length_never_returns_witness:
  "8 \<le> length [0, 0, 0, 0, 252, 255, 255, 255 :: byte]
   \<and> parse_CMsgMulti (fixture_env True) (take 8 [0, 0, 0, 0, 252, 255, 255, 255])
       = (0, le32 0xFFFFFFFC @ [])
   \<and> HandleMessage (fixture_env True) Multi [0, 0, 0, 0, 252, 255, 255, 255] 8 0 listening = None"
proof -
  have l: "8 \<le> length [0, 0, 0, 0, 252, 255, 255, 255 :: byte]"
    by simp
  have p: "parse_CMsgMulti (fixture_env True) (take 8 [0, 0, 0, 0, 252, 255, 255, 255])
             = (0, le32 0xFFFFFFFC @ [])"
    by (simp add: fixture_parse_CMsgMulti u32_at_def le32_bytes)
  have r: "ReadMessage (fixture_env True) ([] @ [0]) 4294967292
             = (\<lambda>s. returns (emit (SubMessage [0]) s))"
    by (simp add: fixture_ReadMessage)
  show ?thesis
    using batch_with_wrapping_length_never_returns [OF l p r, of 0 listening] l p by blast
qed

lemma c_str_before_null: "0 \<notin> set name \<Longrightarrow> c_str (name @ 0 # rest) = name"
  by (induction name) (auto simp: c_str_def)

text \<open>
  With a chat-enter callback set, a message made of the header, the member count,
  the room name, a null and the member records invokes the callback once with the chat
  identifier and enter response of the header, the room name, the member count, and
  the member records that start right behind the null. The declared length plays no
  part.
\<close>

theorem chat_enter_passes_name_and_members:
  assumes "onChatEnter st"
    and "length hdr = sizeof_MsgClientChatEnter (lay env)"
    and "0 \<notin> set name"
    and "data = hdr @ le32 member_count @ name @ 0 # members"
  shows "HandleMessage env ClientChatEnter data len job_id st =
           returns (st\<lparr>trace := trace st @
             [OnChatEnter (u64_at (off_steamIdChat_enter (lay env)) data)
                (u32_at (off_enterResponse (lay env)) data) name member_count members]\<rparr>)"
proof -
  let ?sz = "sizeof_MsgClientChatEnter (lay env)"
  have count: "u32_at ?sz data = member_count"
    using u32_at_le32 [of hdr member_count "name @ 0 # members"] assms(2,4) by simp
  have chat_name: "drop (?sz + 4) data = name @ 0 # members"
    using assms(2,4) by (simp add: length_le32)
  have found: "(List.find (\<lambda>b. b = 0) (name @ 0 # members) = None) = False"
    by (simp add: find_null)
  have len: "\<not> length data < ?sz + 4"
    using assms(2,4) by (simp add: length_le32)
  show ?thesis
    using assms(1) len
    by (simp add: handle_ClientChatEnter_def Let_def count chat_name found
          c_str_before_null [OF assms(3)] emit_def)
qed

theorem chat_enter_passes_name_and_members_witness:
  "onChatEnter listening
   \<and> length chat_enter_header = sizeof_MsgClientChatEnter (lay (fixture_env False))
   \<and> 0 \<notin> set [97, 98 :: byte]
   \<and> chat_enter_msg = chat_enter_header @ le32 2 @ [97, 98] @ 0 # [9, 9]
   \<and> HandleMessage (fixture_env False) ClientChatEnter chat_enter_msg 0 0 listening
       = returns (listening\<lparr>trace := [OnChatEnter 3 1 [97, 98] 2 [9, 9]]\<rparr>)"
proof -
  have h1: "onChatEnter listening"
    by (simp add: listening_def)
  have h2: "length chat_enter_header = sizeof_MsgClientChatEnter (lay (fixture_env False))"
    by (simp add: chat_enter_header_def fixture_env_def fixture_layout_def)
  have h3: "0 \<notin> set [97, 98 :: byte]"
    by simp
  have h4: "chat_enter_msg = chat_enter_header @ le32 2 @ [97, 98] @ 0 # [9, 9]"
    by (simp add: chat_enter_msg_def le32_bytes)
  have f: "u64_at (off_steamIdChat_enter (lay (fixture_env False))) chat_enter_msg = 3"
          "u32_at (off_enterResponse (lay (fixture_env False))) chat_enter_msg = 1"
    by (simp_all add: fixture_env_def fixture_layout_def chat_enter_msg_def
          chat_enter_header_def u64_at_def u32_at_def)
  have t: "trace listening = []"
    by (simp add: listening_def)
  from chat_enter_passes_name_and_members [OF h1 h2 h3 h4, of 0 0]
  have "HandleMessage (fixture_env False) ClientChatEnter chat_enter_msg 0 0 listening
       = returns (listening\<lparr>trace := [OnChatEnter 3 1 [97, 98] 2 [9, 9]]\<rparr>)"
    by (simp only: f t append_Nil)
  with h1 h2 h3 h4 show ?thesis
    by blast
qed

text \<open>
  With a chat-state-change callback set and a readable header: an info type other
  than state change produces no callback and changes nothing; a state change whose
  20 bytes of payload are readable invokes the callback once with the chat
  identifier, the acting identifier (payload offset 12), the identifier acted on
  (offset 0), the state change (offset 8) and the member record behind them.
\<close>

theorem chat_member_info_state_change_only:
  assumes "onChatStateChange st"
    and "sz = sizeof_MsgClientChatMemberInfo (lay env)"
    and "sz \<le> length data"
  shows "(u32_at (off_type (lay env)) data \<noteq> EChatInfoType_StateChange (lay env) \<longrightarrow>
            HandleMessage env ClientChatMemberInfo data len job_id st = returns st)
       \<and> (u32_at (off_type (lay env)) data = EChatInfoType_StateChange (lay env)
            \<and> sz + 20 \<le> length data \<longrightarrow>
            HandleMessage env ClientChatMemberInfo data len job_id st =
              returns (st\<lparr>trace := trace st @
                [OnChatStateChange (u64_at (off_steamIdChat_info (lay env)) data)
                   (u64_at (sz + 12) data) (u64_at sz data) (u32_at (sz + 8) data)
                   (drop (sz + 20) data)]\<rparr>))"
  using assms by (simp add: handle_ClientChatMemberInfo_def Let_def emit_def add.assoc)

theorem chat_member_info_state_change_only_witness:
  "onChatStateChange listening
   \<and> sizeof_MsgClientChatMemberInfo (lay (fixture_env False)) \<le> length member_info_msg
   \<and> u32_at (off_type (lay (fixture_env False))) member_info_msg
       = EChatInfoType_StateChange (lay (fixture_env False))
   \<and> sizeof_MsgClientChatMemberInfo (lay (fixture_env False)) + 20 \<le> length member_info_msg
   \<and> HandleMessage (fixture_env False) ClientChatMemberInfo member_info_msg 33 0 listening
       = returns (listening\<lparr>trace := [OnChatStateChange 3 5 4 2 [9]]\<rparr>)
   \<and> u32_at (off_type (lay (fixture_env False))) (member_info_msg[8 := 2])
       \<noteq> EChatInfoType_StateChange (lay (fixture_env False))
   \<and> HandleMessage (fixture_env False) ClientChatMemberInfo (member_info_msg[8 := 2]) 33 0 listening
       = returns listening"
proof -
  have h1: "onChatStateChange listening"
    by (simp add: listening_def)
  have sz: "12 = sizeof_MsgClientChatMemberInfo (lay (fixture_env False))"
    by (simp add: fixture_env_def fixture_layout_def)
  have l: "12 \<le> length member_info_msg" "12 \<le> length (member_info_msg[8 := 2])"
    by (simp_all add: member_info_msg_def)
  have ty: "u32_at (off_type (lay (fixture_env False))) member_info_msg
              = EChatInfoType_StateChange (lay (fixture_env False))"
           "u32_at (off_type (lay (fixture_env False))) (member_info_msg[8 := 2])
              \<noteq> EChatInfoType_StateChange (lay (fixture_env False))"
    by (simp_all add: fixture_env_def fixture_layout_def member_info_msg_def u32_at_def)
  have l20: "12 + 20 \<le> length member_info_msg"
    by (simp add: member_info_msg_def)
  have f: "u64_at (off_steamIdChat_info (lay (fixture_env False))) member_info_msg = 3"
          "u64_at (12 + 12) member_info_msg = 5" "u64_at 12 member_info_msg = 4"
          "u32_at (12 + 8) member_info_msg = 2" "drop (12 + 20) member_info_msg = [9]"
    by (simp_all add: fixture_env_def fixture_layout_def member_info_msg_def u64_at_def u32_at_def)
  have t: "trace listening = []"
    by (simp add: listening_def)
  from chat_member_info_state_change_only [OF h1 sz l(1), of 33 0] ty(1) l20
  have 1: "HandleMessage (fixture_env False) ClientChatMemberInfo member_info_msg 33 0 listening
             = returns (listening\<lparr>trace := [OnChatStateChange 3 5 4 2 [9]]\<rparr>)"
    by (simp only: f t append_Nil)
  from chat_member_info_state_change_only [OF h1 sz l(2), of 33 0] ty(2)
  have 2: "HandleMessage (fixture_env False) ClientChatMemberInfo (member_info_msg[8 := 2]) 33 0
             listening = returns listening"
    by blast
  show ?thesis
    using h1 l(1) ty l20 1 2 unfolding sz [symmetric] by blast
qed

text \<open>
  A message kind that the switch has no case for is ignored: the client is
  returned unchanged.
\<close>

theorem unhandled_kinds_are_ignored:
  assumes "k \<notin> {ChannelEncryptRequest, ChannelEncryptResult, Multi, ClientLogOnResponse,
                 ClientUpdateMachineAuth, ClientPersonaState, ClientChatMsg, ClientChatEnter,
                 ClientChatMemberInfo}"
  shows "HandleMessage env k data len job_id st = returns st"
  using assms by (cases k) simp_all

theorem unhandled_kinds_are_ignored_witness:
  "OtherEMsg 5 \<notin> {ChannelEncryptRequest, ChannelEncryptResult, Multi, ClientLogOnResponse,
                    ClientUpdateMachineAuth, ClientPersonaState, ClientChatMsg, ClientChatEnter,
                    ClientChatMemberInfo}
   \<and> HandleMessage (fixture_env False) (OtherEMsg 5) [1, 2, 3] 3 0 listening = returns listening"
proof -
  have h: "OtherEMsg 5 \<notin> {ChannelEncryptRequest, ChannelEncryptResult, Multi,
             ClientLogOnResponse, ClientUpdateMachineAuth, ClientPersonaState, ClientChatMsg,
             ClientChatEnter, ClientChatMemberInfo}"
    by simp
  show ?thesis
    using h unhandled_kinds_are_ignored [OF h] by blast
qed

text \<open>
  The machine-auth, persona-state, chat-message, chat-enter and chat-member-info
  handlers return the client unchanged, whatever the payload, when their callback is
  not set.
\<close>

theorem unset_callback_drops_the_message:
  assumes "\<not> listener k st"
  shows "HandleMessage env k data len job_id st = returns st"
proof -
  from assms have "k = ClientUpdateMachineAuth \<and> \<not> onSentry st
           \<or> k = ClientPersonaState \<and> \<not> onUserInfo st
           \<or> k = ClientChatMsg \<and> \<not> onChatMsg st
           \<or> k = ClientChatEnter \<and> \<not> onChatEnter st
           \<or> k = ClientChatMemberInfo \<and> \<not> onChatStateChange st"
    by (simp add: listener_def split: if_splits)
  then show ?thesis
    by (auto simp: handle_ClientUpdateMachineAuth_def handle_ClientPersonaState_def
          handle_ClientChatMsg_def handle_ClientChatEnter_def handle_ClientChatMemberInfo_def)
qed

theorem unset_callback_drops_the_message_witness:
  "\<not> listener ClientChatMsg deaf
   \<and> HandleMessage (fixture_env False) ClientChatMsg chat_hello 25 0 deaf = returns deaf"
proof -
  have h: "\<not> listener ClientChatMsg deaf"
    by (simp add: listener_def deaf_def)
  from unset_callback_drops_the_message [OF h] h show ?thesis
    by blast
qed

text \<open>
  An encryption request, whatever its payload, stores the freshly drawn session
  key and sends one \<open>ChannelEncryptResponse\<close>, with the flag unset and no job id:
  the default-constructed header, the encrypted key, the checksum of the encrypted
  key in four little-endian bytes, and four zero bytes.
\<close>

theorem encrypt_request_sends_response:
  "HandleMessage env ChannelEncryptRequest data len job_id st =
     returns (st\<lparr>sessionKey := RAND_bytes env,
        trace := trace st @
          [WriteMessage ChannelEncryptResponse False
             (init_MsgChannelEncryptResponse (lay env)
                @ RSA_public_encrypt env (RAND_bytes env)
                @ le32 (crc32 env (RSA_public_encrypt env (RAND_bytes env)))
                @ [0, 0, 0, 0]) None]\<rparr>)"
  by (simp add: handle_ChannelEncryptRequest_def Let_def emit_def le32_bytes)

end
